theory Spec2Isabelle
  imports Main
begin

section \<open>Data model of the gym game bot (src/main.py)\<close>

text \<open>
  The bot keeps two MongoDB collections, \<open>users\<close> and \<open>games\<close>. A collection is a
  list of documents in insertion order: \<open>find_one\<close> returns the first match and
  \<open>update_one\<close> rewrites the first match. Values the handlers read from their
  environment (the sender of a message, the calendar day \<open>date.today()\<close>, the instant
  \<open>datetime.now(UTC)\<close>, the string \<open>str(datetime.now().timestamp())\<close>, the result of
  \<open>random.choice([True, False])\<close>, the configured \<open>ADMIN_ID\<close>) are parameters.

  A calendar day is its ordinal number: \<open>str\<close> of a date is injective, so comparing
  the stored strings is comparing the ordinals, and \<open>today - timedelta(days=1)\<close> is
  \<open>today - 1\<close>. An instant is a number of microseconds since the epoch.

  The client is built by \<open>MongoClient(MONGO_URI)\<close>. Its option \<open>tz_aware\<close> is off
  unless the configured URI turns it on, and a client without it reads a stored
  \<open>datetime\<close> back as a naive one; \<open>tz_aware\<close> is a parameter of the one function
  that computes with a stored \<open>datetime\<close>, the scheduled check.
\<close>

type_synonym date = int
type_synonym instant = int

text \<open>The Telegram user object a message comes from.\<close>

record tg_user =
  tg_id :: int
  tg_username :: "string option"
  tg_first_name :: "string option"
  tg_last_name :: "string option"

text \<open>A document of \<open>users_collection\<close>, as \<open>claim\<close> and \<open>join\<close> insert it.\<close>

record user =
  user_id :: int
  display_name :: string
  points :: int
  streak :: int
  last_claim :: "date option"

text \<open>A document of \<open>games_collection\<close>, as \<open>confirm_penalties\<close> inserts it.\<close>

record game =
  gid :: string
  mode :: string
  duration :: string
  penalties :: bool
  team_1 :: "string list"
  team_2 :: "string list"
  scores :: "(string \<times> int) list"
  active :: bool
  day :: int
  start_date :: instant

record store =
  users_collection :: "user list"
  games_collection :: "game list"

text \<open>\<open>context.user_data\<close>: the dictionary the setup dialogue fills, a key at a time.\<close>

record user_data =
  ud_initiator_id :: "int option"
  ud_mode :: "string option"
  ud_duration :: "string option"
  ud_penalties :: "bool option"
  ud_team_1 :: "string list option"
  ud_team_2 :: "string list option"

datatype conv_state = SELECT_MODE | SET_DURATION | CONFIRM_PENALTIES | END

datatype error = KeyError string | DuplicateKeyError string | AttributeError | TypeError

text \<open>
  What a handler sends. The wording of a message is outside the model; a message that
  carries data (names, points, rosters) keeps the data. The last two go to
  \<open>GROUP_CHAT_ID\<close>, the others answer the sender.
\<close>

datatype lead = TeamA_leads int | TeamB_leads int | Tied

datatype msg =
    GameAlreadyStarted
  | ChooseMode
  | OnlyInitiatorMode
  | AssignedTeamA string
  | AssignedTeamB string
  | AskDuration
  | OnlyInitiatorDuration
  | AskPenalties
  | OnlyInitiatorPenalties
  | GameStartedTeam "string list" "string list"
  | GameStartedIndividual
  | AlreadyClaimedToday
  | Claimed string int int
  | NoGameFound
  | LeaderboardIndividual "(string \<times> int) list"
  | LeaderboardTeam "(string \<times> int) list" "(string \<times> int) list" lead
  | NoValidGameMode
  | NotAuthorized
  | NoActiveGameToEnd
  | GameEnded
  | NoActiveGameFound
  | DayEnded int int
  | AlreadyInGame
  | NoActiveGameUseStart
  | WelcomeTeamA string
  | WelcomeTeamB string
  | WelcomeAdded string
  | GroupDailySummary "(string \<times> int) list"
  | GroupEndedDueToDuration

section \<open>The store's operations\<close>

text \<open>\<open>update_one(filter, {"$set": ...})\<close>: the first matching document is rewritten.\<close>

fun update_one :: "('a \<Rightarrow> bool) \<Rightarrow> ('a \<Rightarrow> 'a) \<Rightarrow> 'a list \<Rightarrow> 'a list" where
  "update_one P f [] = []"
| "update_one P f (x # xs) = (if P x then f x # xs else x # update_one P f xs)"

text \<open>\<open>update_many({}, {"$set": ...})\<close>: every document is rewritten.\<close>

definition update_many :: "('a \<Rightarrow> 'a) \<Rightarrow> 'a list \<Rightarrow> 'a list" where
  "update_many f xs = map f xs"

definition find_user :: "int \<Rightarrow> user list \<Rightarrow> user option" where
  "find_user uid us = find (\<lambda>u. user_id u = uid) us"

definition find_active :: "game list \<Rightarrow> game option" where
  "find_active gs = find active gs"

text \<open>
  \<open>find_one(sort=[("start_date", -1)])\<close>: a game with the latest start date (the
  first such in the collection).
\<close>

fun most_recent :: "game list \<Rightarrow> game option" where
  "most_recent [] = None"
| "most_recent (g # gs) =
     (case most_recent gs of
        None \<Rightarrow> Some g
      | Some h \<Rightarrow> if start_date g \<ge> start_date h then Some g else Some h)"

text \<open>\<open>find().sort("points", -1)\<close>: by points, highest first, equal points in stored order.\<close>

definition by_points_desc :: "user list \<Rightarrow> user list" where
  "by_points_desc us = sort_key (\<lambda>u. - points u) us"

definition listing :: "user list \<Rightarrow> (string \<times> int) list" where
  "listing us = map (\<lambda>u. (display_name u, points u)) us"

section \<open>Display names\<close>

text \<open>Python's truth value of an optional string: \<open>None\<close> and \<open>""\<close> are false.\<close>

fun truthy :: "string option \<Rightarrow> bool" where
  "truthy None = False"
| "truthy (Some s) = (s \<noteq> [])"

definition get_display_name :: "tg_user \<Rightarrow> string" where
  "get_display_name user_obj =
     (if truthy (tg_username user_obj) then the (tg_username user_obj)
      else if truthy (tg_first_name user_obj) \<and> truthy (tg_last_name user_obj)
        then the (tg_first_name user_obj) @ '' '' @ the (tg_last_name user_obj)
      else if truthy (tg_first_name user_obj) then the (tg_first_name user_obj)
      else ''Unknown User'')"

section \<open>The daily claim\<close>

text \<open>
  Lines 199 to 231 of \<open>claim\<close>: \<open>usr\<close> is the document read before any display-name
  refresh (the handler keeps using that copy), \<open>s\<close> the store after it.
\<close>

definition claim_today :: "int \<Rightarrow> string \<Rightarrow> date \<Rightarrow> user \<Rightarrow> store \<Rightarrow> store \<times> msg list" where
  "claim_today uid name today usr s =
     (if last_claim usr = Some today then (s, [AlreadyClaimedToday])
      else
        let yesterday = today - 1;
            new_streak = (if last_claim usr = Some yesterday then streak usr + 1 else 1);
            new_points = (if new_streak mod 7 = 0 then points usr + 1 + 3 else points usr + 1)
        in (s\<lparr>users_collection :=
                update_one (\<lambda>u. user_id u = uid)
                  (\<lambda>u. u\<lparr>points := new_points, streak := new_streak, last_claim := Some today\<rparr>)
                  (users_collection s)\<rparr>,
            [Claimed name new_streak new_points]))"

definition claim :: "tg_user \<Rightarrow> date \<Rightarrow> store \<Rightarrow> error + store \<times> msg list" where
  "claim user_obj today s =
     (let uid = tg_id user_obj;
          name = get_display_name user_obj
      in case find_user uid (users_collection s) of
           None \<Rightarrow>
             (let s1 = s\<lparr>users_collection := users_collection s @
                         [\<lparr>user_id = uid, display_name = name, points = 0, streak = 0,
                           last_claim = None\<rparr>]\<rparr>
              in case find_user uid (users_collection s1) of
                   None \<Rightarrow> Inl AttributeError
                 | Some usr \<Rightarrow> Inr (claim_today uid name today usr s1))
         | Some usr \<Rightarrow>
             (let s1 = (if display_name usr \<noteq> name
                        then s\<lparr>users_collection :=
                               update_one (\<lambda>u. user_id u = uid)
                                 (\<lambda>u. u\<lparr>display_name := name\<rparr>) (users_collection s)\<rparr>
                        else s)
              in Inr (claim_today uid name today usr s1)))"

section \<open>The setup dialogue\<close>

text \<open>
  Each handler of the conversation takes the sender, the text of the message, the
  sender's \<open>user_data\<close> and the store, and gives the next state of the conversation,
  the \<open>user_data\<close> and the store as it leaves them, and its replies.
\<close>

definition start :: "tg_user \<Rightarrow> user_data \<Rightarrow> store \<Rightarrow> conv_state \<times> user_data \<times> store \<times> msg list" where
  "start from_user ud s =
     (case find_active (games_collection s) of
        Some active_game \<Rightarrow> (END, ud, s, [GameAlreadyStarted])
      | None \<Rightarrow> (SELECT_MODE, ud\<lparr>ud_initiator_id := Some (tg_id from_user)\<rparr>, s, [ChooseMode]))"

definition select_mode ::
  "tg_user \<Rightarrow> string \<Rightarrow> bool \<Rightarrow> user_data \<Rightarrow> store \<Rightarrow> conv_state \<times> user_data \<times> store \<times> msg list" where
  "select_mode from_user txt coin ud s =
     (if Some (tg_id from_user) \<noteq> ud_initiator_id ud
      then (SELECT_MODE, ud, s, [OnlyInitiatorMode])
      else
        let ud1 = ud\<lparr>ud_mode := Some txt\<rparr>
        in if txt = ''Team''
           then
             let initiator_name = get_display_name from_user
             in if coin
                then (SET_DURATION,
                      ud1\<lparr>ud_team_1 := Some [initiator_name], ud_team_2 := Some []\<rparr>, s,
                      [AssignedTeamA initiator_name, AskDuration])
                else (SET_DURATION,
                      ud1\<lparr>ud_team_1 := Some [], ud_team_2 := Some [initiator_name]\<rparr>, s,
                      [AssignedTeamB initiator_name, AskDuration])
           else (SET_DURATION, ud1, s, [AskDuration]))"

definition set_duration ::
  "tg_user \<Rightarrow> string \<Rightarrow> user_data \<Rightarrow> store \<Rightarrow> conv_state \<times> user_data \<times> store \<times> msg list" where
  "set_duration from_user txt ud s =
     (if Some (tg_id from_user) \<noteq> ud_initiator_id ud
      then (SET_DURATION, ud, s, [OnlyInitiatorDuration])
      else (CONFIRM_PENALTIES, ud\<lparr>ud_duration := Some txt\<rparr>, s, [AskPenalties]))"

text \<open>
  \<open>confirm_penalties\<close> reads \<open>user_data["mode"]\<close> and \<open>user_data["duration"]\<close> (a
  missing key raises \<open>KeyError\<close>) and inserts the game under the identifier
  \<open>game_id\<close> (the collection refuses a second document with the same \<open>_id\<close>). When
  it raises, the store is as it was and \<open>user_data\<close> already holds the penalties.
\<close>

definition confirm_penalties ::
  "tg_user \<Rightarrow> string \<Rightarrow> string \<Rightarrow> instant \<Rightarrow> user_data \<Rightarrow> store
     \<Rightarrow> error \<times> user_data + conv_state \<times> user_data \<times> store \<times> msg list" where
  "confirm_penalties from_user txt game_id now ud s =
     (if Some (tg_id from_user) \<noteq> ud_initiator_id ud
      then Inr (CONFIRM_PENALTIES, ud, s, [OnlyInitiatorPenalties])
      else
        let pen = (txt = ''Yes'');
            ud1 = ud\<lparr>ud_penalties := Some pen\<rparr>
        in case ud_mode ud1 of
             None \<Rightarrow> Inl (KeyError ''mode'', ud1)
           | Some m \<Rightarrow>
               (case ud_duration ud1 of
                  None \<Rightarrow> Inl (KeyError ''duration'', ud1)
                | Some d \<Rightarrow>
                    let game_data =
                          \<lparr>gid = game_id, mode = m, duration = d, penalties = pen,
                           team_1 = (case ud_team_1 ud1 of None \<Rightarrow> [] | Some t \<Rightarrow> t),
                           team_2 = (case ud_team_2 ud1 of None \<Rightarrow> [] | Some t \<Rightarrow> t),
                           scores = [], active = True, day = 1, start_date = now\<rparr>
                    in if game_id \<in> set (map gid (games_collection s))
                       then Inl (DuplicateKeyError game_id, ud1)
                       else
                         let s1 = s\<lparr>games_collection := games_collection s @ [game_data]\<rparr>;
                             s2 = s1\<lparr>users_collection :=
                                    update_many (\<lambda>u. u\<lparr>points := 0, streak := 0, last_claim := None\<rparr>)
                                      (users_collection s1)\<rparr>
                         in Inr (END, ud1, s2,
                                 [if m = ''Team''
                                  then GameStartedTeam (team_1 game_data) (team_2 game_data)
                                  else GameStartedIndividual])))"

section \<open>Leaderboard and daily summary\<close>

definition team_lead :: "int \<Rightarrow> int \<Rightarrow> lead" where
  "team_lead p1 p2 = (if p1 > p2 then TeamA_leads p1 else if p2 > p1 then TeamB_leads p2 else Tied)"

definition board :: "game \<Rightarrow> store \<Rightarrow> msg" where
  "board g s =
     (if mode g = ''Individual''
      then LeaderboardIndividual (listing (by_points_desc (users_collection s)))
      else if mode g = ''Team''
      then
        let team_1_users = filter (\<lambda>u. display_name u \<in> set (team_1 g)) (users_collection s);
            team_2_users = filter (\<lambda>u. display_name u \<in> set (team_2 g)) (users_collection s)
        in LeaderboardTeam (listing team_1_users) (listing team_2_users)
             (team_lead (sum_list (map points team_1_users)) (sum_list (map points team_2_users)))
      else NoValidGameMode)"

definition leaderboard :: "store \<Rightarrow> msg list" where
  "leaderboard s =
     (case find_active (games_collection s) of
        Some active_game \<Rightarrow> [board active_game s]
      | None \<Rightarrow>
          (case most_recent (games_collection s) of
             None \<Rightarrow> [NoGameFound]
           | Some g \<Rightarrow> [board g s]))"

definition daily_summary :: "store \<Rightarrow> msg list" where
  "daily_summary s =
     (case find_active (games_collection s) of
        None \<Rightarrow> []
      | Some active_game \<Rightarrow> [GroupDailySummary (listing (by_points_desc (users_collection s)))])"

section \<open>Ending a game, ending a day\<close>

definition end_game :: "int \<Rightarrow> tg_user \<Rightarrow> store \<Rightarrow> store \<times> msg list" where
  "end_game admin_id from_user s =
     (if tg_id from_user \<noteq> admin_id then (s, [NotAuthorized])
      else case find_active (games_collection s) of
             None \<Rightarrow> (s, [NoActiveGameToEnd])
           | Some active_game \<Rightarrow>
               let board_msgs = leaderboard s;
                   s1 = s\<lparr>games_collection :=
                          update_one (\<lambda>g. gid g = gid active_game) (\<lambda>g. g\<lparr>active := False\<rparr>)
                            (games_collection s)\<rparr>;
                   s2 = s1\<lparr>users_collection := []\<rparr>;
                   s3 = s2\<lparr>games_collection := []\<rparr>
               in (s3, board_msgs @ [GameEnded]))"

text \<open>
  Lines 439 to 453 of \<open>end_day\<close>: the two writes made before the check of the
  duration, on the active game that was read.
\<close>

definition end_day_writes :: "game \<Rightarrow> store \<Rightarrow> store" where
  "end_day_writes active_game s =
     (let next_day = day active_game + 1;
          s1 = s\<lparr>games_collection :=
                 update_one (\<lambda>g. gid g = gid active_game) (\<lambda>g. g\<lparr>day := next_day\<rparr>)
                   (games_collection s)\<rparr>
      in s1\<lparr>users_collection :=
             update_many (\<lambda>u. u\<lparr>streak := 0, last_claim := None\<rparr>) (users_collection s1)\<rparr>)"

definition end_day :: "int \<Rightarrow> tg_user \<Rightarrow> store \<Rightarrow> store \<times> msg list" where
  "end_day admin_id from_user s =
     (if tg_id from_user \<noteq> admin_id then (s, [NotAuthorized])
      else case find_active (games_collection s) of
             None \<Rightarrow> (s, [NoActiveGameFound])
           | Some active_game \<Rightarrow>
               let current_day = day active_game;
                   next_day = current_day + 1;
                   s2 = end_day_writes active_game s;
                   game_duration = duration active_game
               in if game_duration = ''1 week'' \<and> next_day > 7 then end_game admin_id from_user s2
                  else if game_duration = ''2 weeks'' \<and> next_day > 14 then end_game admin_id from_user s2
                  else if game_duration = ''1 month'' \<and> next_day > 30 then end_game admin_id from_user s2
                  else (s2, DayEnded current_day next_day # daily_summary s2))"

section \<open>The scheduled check\<close>

text \<open>
  \<open>timedelta.days\<close> of the time from a game's start to \<open>now\<close>: whole days, rounded
  down.
\<close>

definition whole_days :: "instant \<Rightarrow> game \<Rightarrow> int" where
  "whole_days now g = (now - start_date g) div 86400000000"

text \<open>
  Line 498, \<open>(current_date - game_start_date).days\<close>. \<open>current_date\<close> is aware (it is
  \<open>datetime.now(pytz.UTC)\<close>); the stored start date is aware only when the client is
  \<open>tz_aware\<close>, and Python refuses to subtract a naive \<open>datetime\<close> from an aware one.
\<close>

definition days_passed :: "bool \<Rightarrow> instant \<Rightarrow> game \<Rightarrow> error + int" where
  "days_passed tz_aware now g = (if tz_aware then Inr (whole_days now g) else Inl TypeError)"

text \<open>The condition of lines 500 to 502, on the duration and the days passed.\<close>

definition expired :: "string \<Rightarrow> int \<Rightarrow> bool" where
  "expired game_duration game_days_passed =
     (game_duration = ''1 week'' \<and> game_days_passed \<ge> 7 \<or>
      game_duration = ''2 weeks'' \<and> game_days_passed \<ge> 14 \<or>
      game_duration = ''1 month'' \<and> game_days_passed \<ge> 30)"

text \<open>
  The loop of \<open>check_game_end\<close> over the active games. For each game the days passed
  are computed first; the first expired game is marked inactive and the function
  returns; a game that has not expired gets a summary. When the function raises, the
  result holds the store and the messages as they are at that moment.
\<close>

fun check_loop ::
  "bool \<Rightarrow> instant \<Rightarrow> game list \<Rightarrow> store \<Rightarrow> error \<times> store \<times> msg list + store \<times> msg list" where
  "check_loop tz_aware now [] s = Inr (s, [])"
| "check_loop tz_aware now (g # gs) s =
     (case days_passed tz_aware now g of
        Inl e \<Rightarrow> Inl (e, s, [])
      | Inr game_days_passed \<Rightarrow>
          if expired (duration g) game_days_passed
          then Inr (s\<lparr>games_collection :=
                        update_one (\<lambda>h. gid h = gid g) (\<lambda>h. h\<lparr>active := False\<rparr>)
                          (games_collection s)\<rparr>,
                    [GroupEndedDueToDuration])
          else
            let summary = daily_summary s
            in case check_loop tz_aware now gs s of
                 Inl (e, s', out) \<Rightarrow> Inl (e, s', summary @ out)
               | Inr (s', out) \<Rightarrow> Inr (s', summary @ out))"

definition check_game_end ::
  "bool \<Rightarrow> instant \<Rightarrow> store \<Rightarrow> error \<times> store \<times> msg list + store \<times> msg list" where
  "check_game_end tz_aware now s = check_loop tz_aware now (filter active (games_collection s)) s"

definition scheduled_check_game_end ::
  "bool \<Rightarrow> instant \<Rightarrow> store \<Rightarrow> error \<times> store \<times> msg list + store \<times> msg list" where
  "scheduled_check_game_end tz_aware now s = check_game_end tz_aware now s"

text \<open>The store a run of the scheduled check leaves, whether it returned or raised.\<close>

fun store_after :: "error \<times> store \<times> msg list + store \<times> msg list \<Rightarrow> store" where
  "store_after (Inl (e, s, out)) = s"
| "store_after (Inr (s, out)) = s"

section \<open>Joining\<close>

text \<open>
  Lines 581 to 594 of \<open>join\<close>: the roster that receives the name. \<open>coin\<close> is what
  \<open>random.choice([True, False])\<close> returns; it is read only when the sizes are equal.
\<close>

definition balance ::
  "string list \<Rightarrow> string list \<Rightarrow> string \<Rightarrow> bool \<Rightarrow> string list \<times> string list \<times> msg" where
  "balance t1 t2 name coin =
     (if length t1 < length t2 then (t1 @ [name], t2, WelcomeTeamA name)
      else if length t2 < length t1 then (t1, t2 @ [name], WelcomeTeamB name)
      else if coin then (t1 @ [name], t2, WelcomeTeamA name)
      else (t1, t2 @ [name], WelcomeTeamB name))"

definition join :: "tg_user \<Rightarrow> bool \<Rightarrow> store \<Rightarrow> store \<times> msg list" where
  "join user_obj coin s =
     (let uid = tg_id user_obj;
          name = get_display_name user_obj
      in case find_user uid (users_collection s) of
           Some usr \<Rightarrow> (s, [AlreadyInGame])
         | None \<Rightarrow>
             (case find_active (games_collection s) of
                None \<Rightarrow> (s, [NoActiveGameUseStart])
              | Some active_game \<Rightarrow>
                  let (s1, out) =
                        (if mode active_game = ''Team''
                         then
                           let (t1, t2, m) = balance (team_1 active_game) (team_2 active_game) name coin
                           in (s\<lparr>games_collection :=
                                  update_one (\<lambda>g. gid g = gid active_game)
                                    (\<lambda>g. g\<lparr>team_1 := t1, team_2 := t2\<rparr>) (games_collection s)\<rparr>,
                               [m])
                         else (s, [WelcomeAdded name]))
                  in (s1\<lparr>users_collection := users_collection s1 @
                           [\<lparr>user_id = uid, display_name = name, points = 0, streak = 0,
                             last_claim = None\<rparr>]\<rparr>,
                      out)))"

section \<open>Running the handlers in sequence\<close>

text \<open>
  The record a claim works on: the stored document of the sender, or the zero
  document the handler inserts first when there is none.
\<close>

definition claimant :: "tg_user \<Rightarrow> store \<Rightarrow> user" where
  "claimant user_obj s =
     (case find_user (tg_id user_obj) (users_collection s) of
        Some usr \<Rightarrow> usr
      | None \<Rightarrow> \<lparr>user_id = tg_id user_obj, display_name = get_display_name user_obj,
                  points = 0, streak = 0, last_claim = None\<rparr>)"

text \<open>The same sender claiming on each day of a list, one call after the other.\<close>

fun run_claims :: "tg_user \<Rightarrow> date list \<Rightarrow> store \<Rightarrow> error + store \<times> msg list" where
  "run_claims user_obj [] s = Inr (s, [])"
| "run_claims user_obj (d # ds) s =
     (case claim user_obj d s of
        Inl e \<Rightarrow> Inl e
      | Inr (s1, out1) \<Rightarrow>
          (case run_claims user_obj ds s1 of
             Inl e \<Rightarrow> Inl e
           | Inr (s2, out2) \<Rightarrow> Inr (s2, out1 @ out2)))"

section \<open>Facts about the store's operations\<close>

lemma find_update_one:
  "find P xs = Some x \<Longrightarrow> P (f x) \<Longrightarrow> find P (update_one P f xs) = Some (f x)"
  by (induction xs) (auto split: if_splits)

lemma update_one_fixed:
  "find P xs = Some x \<Longrightarrow> f x = x \<Longrightarrow> update_one P f xs = xs"
  by (induction xs) (auto split: if_splits)

lemma map_update_one:
  "(\<And>x. g (f x) = g x) \<Longrightarrow> map g (update_one P f xs) = map g xs"
  by (induction xs) auto

lemma find_append_new:
  "find P xs = None \<Longrightarrow> P y \<Longrightarrow> find P (xs @ [y]) = Some y"
  by (induction xs) (auto split: if_splits)

lemma update_one_append_new:
  "find P xs = None \<Longrightarrow> P y \<Longrightarrow> update_one P f (xs @ [y]) = xs @ [f y]"
  by (induction xs) (auto split: if_splits)

lemma find_user_id: "find_user uid us = Some u \<Longrightarrow> user_id u = uid"
  by (auto simp: find_user_def find_Some_iff)

lemma rename_same: "display_name u = n \<Longrightarrow> u\<lparr>display_name := n\<rparr> = u"
  by (cases u) simp

lemma claim_new_user:
  assumes "find_user (tg_id user_obj) (users_collection s) = None"
  shows "claim user_obj today s =
           Inr (s\<lparr>users_collection := users_collection s @
                   [\<lparr>user_id = tg_id user_obj, display_name = get_display_name user_obj,
                     points = 1, streak = 1, last_claim = Some today\<rparr>]\<rparr>,
                [Claimed (get_display_name user_obj) 1 1])"
  using assms
  by (simp add: claim_def claim_today_def Let_def find_user_def find_append_new
      update_one_append_new)

lemma claim_known_user:
  assumes "find_user (tg_id user_obj) (users_collection s) = Some usr"
    and "last_claim usr \<noteq> Some today"
  shows "\<exists>s'. claim user_obj today s =
             Inr (s', [Claimed (get_display_name user_obj)
                        (if last_claim usr = Some (today - 1) then streak usr + 1 else 1)
                        (points usr + 1 +
                           (if (if last_claim usr = Some (today - 1) then streak usr + 1 else 1) mod 7 = 0
                            then 3 else 0))])
           \<and> games_collection s' = games_collection s
           \<and> find_user (tg_id user_obj) (users_collection s') =
               Some (usr\<lparr>display_name := get_display_name user_obj,
                         points := points usr + 1 +
                           (if (if last_claim usr = Some (today - 1) then streak usr + 1 else 1) mod 7 = 0
                            then 3 else 0),
                         streak := (if last_claim usr = Some (today - 1) then streak usr + 1 else 1),
                         last_claim := Some today\<rparr>)"
  using assms find_user_id[OF assms(1)]
  by (auto simp add: claim_def claim_today_def Let_def find_user_def find_update_one)

lemma claim_step:
  assumes "last_claim (claimant user_obj s) \<noteq> Some today"
  shows "\<exists>s' u'. claim user_obj today s =
             Inr (s', [Claimed (get_display_name user_obj) (streak u') (points u')])
           \<and> claimant user_obj s' = u'
           \<and> find_user (tg_id user_obj) (users_collection s') = Some u'
           \<and> streak u' = (if last_claim (claimant user_obj s) = Some (today - 1)
                          then streak (claimant user_obj s) + 1 else 1)
           \<and> points u' = points (claimant user_obj s) + 1 + (if streak u' mod 7 = 0 then 3 else 0)
           \<and> last_claim u' = Some today"
proof (cases "find_user (tg_id user_obj) (users_collection s)")
  case None
  then show ?thesis
    by (simp add: claim_new_user claimant_def find_user_def find_append_new)
next
  case (Some usr)
  with assms have "last_claim usr \<noteq> Some today"
    by (simp add: claimant_def)
  from claim_known_user[OF Some this] obtain s' where
    "claim user_obj today s =
             Inr (s', [Claimed (get_display_name user_obj)
                        (if last_claim usr = Some (today - 1) then streak usr + 1 else 1)
                        (points usr + 1 +
                           (if (if last_claim usr = Some (today - 1) then streak usr + 1 else 1) mod 7 = 0
                            then 3 else 0))])"
    and "find_user (tg_id user_obj) (users_collection s') =
               Some (usr\<lparr>display_name := get_display_name user_obj,
                         points := points usr + 1 +
                           (if (if last_claim usr = Some (today - 1) then streak usr + 1 else 1) mod 7 = 0
                            then 3 else 0),
                         streak := (if last_claim usr = Some (today - 1) then streak usr + 1 else 1),
                         last_claim := Some today\<rparr>)"
    by blast
  then show ?thesis using Some
    by (simp add: claimant_def)
qed

lemma seven_claims:
  assumes p0: "points (claimant user_obj s) = 0"
    and l0: "last_claim (claimant user_obj s) = None"
  shows "\<exists>s'. run_claims user_obj [d, d + 1, d + 2, d + 3, d + 4, d + 5, d + 6] s =
           Inr (s', [Claimed (get_display_name user_obj) 1 1,
                     Claimed (get_display_name user_obj) 2 2,
                     Claimed (get_display_name user_obj) 3 3,
                     Claimed (get_display_name user_obj) 4 4,
                     Claimed (get_display_name user_obj) 5 5,
                     Claimed (get_display_name user_obj) 6 6,
                     Claimed (get_display_name user_obj) 7 10])"
proof -
  let ?n = "get_display_name user_obj"
  from l0 have "last_claim (claimant user_obj s) \<noteq> Some d" by simp
  from claim_step[OF this] p0 l0 obtain s1 where
    c1: "claim user_obj d s = Inr (s1, [Claimed ?n 1 1])"
    and u1: "streak (claimant user_obj s1) = 1" "points (claimant user_obj s1) = 1"
      "last_claim (claimant user_obj s1) = Some d"
    by auto
  from u1 have "last_claim (claimant user_obj s1) \<noteq> Some (d + 1)" by simp
  from claim_step[OF this] u1 obtain s2 where
    c2: "claim user_obj (d + 1) s1 = Inr (s2, [Claimed ?n 2 2])"
    and u2: "streak (claimant user_obj s2) = 2" "points (claimant user_obj s2) = 2"
      "last_claim (claimant user_obj s2) = Some (d + 1)"
    by auto
  from u2 have "last_claim (claimant user_obj s2) \<noteq> Some (d + 2)" by simp
  from claim_step[OF this] u2 obtain s3 where
    c3: "claim user_obj (d + 2) s2 = Inr (s3, [Claimed ?n 3 3])"
    and u3: "streak (claimant user_obj s3) = 3" "points (claimant user_obj s3) = 3"
      "last_claim (claimant user_obj s3) = Some (d + 2)"
    by auto
  from u3 have "last_claim (claimant user_obj s3) \<noteq> Some (d + 3)" by simp
  from claim_step[OF this] u3 obtain s4 where
    c4: "claim user_obj (d + 3) s3 = Inr (s4, [Claimed ?n 4 4])"
    and u4: "streak (claimant user_obj s4) = 4" "points (claimant user_obj s4) = 4"
      "last_claim (claimant user_obj s4) = Some (d + 3)"
    by auto
  from u4 have "last_claim (claimant user_obj s4) \<noteq> Some (d + 4)" by simp
  from claim_step[OF this] u4 obtain s5 where
    c5: "claim user_obj (d + 4) s4 = Inr (s5, [Claimed ?n 5 5])"
    and u5: "streak (claimant user_obj s5) = 5" "points (claimant user_obj s5) = 5"
      "last_claim (claimant user_obj s5) = Some (d + 4)"
    by auto
  from u5 have "last_claim (claimant user_obj s5) \<noteq> Some (d + 5)" by simp
  from claim_step[OF this] u5 obtain s6 where
    c6: "claim user_obj (d + 5) s5 = Inr (s6, [Claimed ?n 6 6])"
    and u6: "streak (claimant user_obj s6) = 6" "points (claimant user_obj s6) = 6"
      "last_claim (claimant user_obj s6) = Some (d + 5)"
    by auto
  from u6 have "last_claim (claimant user_obj s6) \<noteq> Some (d + 6)" by simp
  from claim_step[OF this] u6 obtain s7 where
    c7: "claim user_obj (d + 6) s6 = Inr (s7, [Claimed ?n 7 10])"
    by auto
  show ?thesis
    by (simp add: c1 c2 c3 c4 c5 c6 c7)
qed

section \<open>Facts about ending a day, ending a game and the scheduled check\<close>

lemma find_update_one_other:
  "(\<And>x. P (f x) = P x) \<Longrightarrow> (find P (update_one Q f xs) = None) = (find P xs = None)"
  by (induction xs) auto

lemma find_update_one_key:
  "find P gs = Some g \<Longrightarrow> distinct (map k gs) \<Longrightarrow> (\<And>h. P (f h) = P h)
     \<Longrightarrow> find P (update_one (\<lambda>h. k h = k g) f gs) = Some (f g)"
proof (induction gs)
  case Nil
  then show ?case by simp
next
  case (Cons x xs)
  show ?case
  proof (cases "P x")
    case True
    with Cons.prems show ?thesis by simp
  next
    case False
    with Cons.prems have later: "find P xs = Some g" by simp
    then have "g \<in> set xs" by (auto simp: find_Some_iff)
    with Cons.prems(2) have "k x \<noteq> k g" by auto
    with False Cons.IH[OF later] Cons.prems show ?thesis by simp
  qed
qed

lemma store_all_deleted:
  "s\<lparr>users_collection := [], games_collection := []\<rparr>
     = \<lparr>users_collection = [], games_collection = []\<rparr>"
  by (cases s) simp

lemma leaderboard_no_day_ended: "DayEnded a b \<notin> set (leaderboard s)"
  by (auto simp: leaderboard_def board_def Let_def split: option.splits)

lemma end_game_wipes:
  assumes "tg_id from_user = admin_id" and "find_active (games_collection s) = Some g"
  shows "end_game admin_id from_user s =
           (\<lparr>users_collection = [], games_collection = []\<rparr>, leaderboard s @ [GameEnded])"
  using assms by (simp add: end_game_def Let_def store_all_deleted)

lemma end_day_writes_active:
  "(find_active (games_collection (end_day_writes g s)) = None)
     = (find_active (games_collection s) = None)"
  by (simp add: end_day_writes_def Let_def find_active_def find_update_one_other)

lemma end_day_cases:
  assumes "tg_id from_user = admin_id" and "find_active (games_collection s) = Some g"
  shows "end_day admin_id from_user s =
           (if duration g = ''1 week'' \<and> day g + 1 > 7
               \<or> duration g = ''2 weeks'' \<and> day g + 1 > 14
               \<or> duration g = ''1 month'' \<and> day g + 1 > 30
            then end_game admin_id from_user (end_day_writes g s)
            else (end_day_writes g s, DayEnded (day g) (day g + 1) # daily_summary (end_day_writes g s)))"
  using assms by (simp add: end_day_def Let_def)

lemma end_day_ends_game:
  assumes admin: "tg_id from_user = admin_id"
    and act: "find_active (games_collection s) = Some g"
    and dur: "duration g = ''1 week'' \<and> N = 7 \<or> duration g = ''2 weeks'' \<and> N = 14
              \<or> duration g = ''1 month'' \<and> N = 30"
    and past: "day g + 1 > N"
  shows "end_day admin_id from_user s = end_game admin_id from_user (end_day_writes g s)"
    and "end_day admin_id from_user s =
           (\<lparr>users_collection = [], games_collection = []\<rparr>,
            leaderboard (end_day_writes g s) @ [GameEnded])"
proof -
  from dur past show 1: "end_day admin_id from_user s = end_game admin_id from_user (end_day_writes g s)"
    unfolding end_day_cases[OF admin act] by auto
  from act end_day_writes_active[of g s]
  obtain g' where "find_active (games_collection (end_day_writes g s)) = Some g'"
    by auto
  from end_game_wipes[OF admin this] 1
  show "end_day admin_id from_user s =
           (\<lparr>users_collection = [], games_collection = []\<rparr>,
            leaderboard (end_day_writes g s) @ [GameEnded])"
    by simp
qed

lemma find_filter: "find P (filter Q xs) = find (\<lambda>x. Q x \<and> P x) xs"
  by (induction xs) auto

lemma update_one_key_mem:
  "g \<in> set gs \<Longrightarrow> distinct (map k gs) \<Longrightarrow> f g \<in> set (update_one (\<lambda>h. k h = k g) f gs)"
  by (induction gs) auto

lemma check_loop_frame:
  "users_collection (store_after (check_loop tz_aware now gs s)) = users_collection s
   \<and> map day (games_collection (store_after (check_loop tz_aware now gs s)))
       = map day (games_collection s)
   \<and> map gid (games_collection (store_after (check_loop tz_aware now gs s)))
       = map gid (games_collection s)"
  by (induction gs) (auto simp: map_update_one Let_def split: sum.splits prod.splits)

lemma check_loop_naive:
  "check_loop False now (g # gs) s = Inl (TypeError, s, [])"
  by (simp add: days_passed_def)

lemma check_loop_aware_none:
  "find (\<lambda>h. expired (duration h) (whole_days now h)) gs = None \<Longrightarrow>
     check_loop True now gs s = Inr (s, concat (map (\<lambda>h. daily_summary s) gs))"
  by (induction gs) (auto simp: days_passed_def Let_def split: if_splits)

lemma check_loop_aware_first:
  "find (\<lambda>h. expired (duration h) (whole_days now h)) gs = Some g \<Longrightarrow>
     check_loop True now gs s =
       Inr (s\<lparr>games_collection :=
               update_one (\<lambda>h. gid h = gid g) (\<lambda>h. h\<lparr>active := False\<rparr>) (games_collection s)\<rparr>,
            concat (map (\<lambda>h. daily_summary s)
                      (takeWhile (\<lambda>h. \<not> expired (duration h) (whole_days now h)) gs))
              @ [GroupEndedDueToDuration])"
  by (induction gs) (auto simp: days_passed_def Let_def split: if_splits)

lemma find_active_filter: "(find_active gs = None) = (filter active gs = [])"
  by (induction gs) (auto simp: find_active_def)

lemma summaries_of_active:
  assumes "set gs \<subseteq> set (filter active (games_collection s))"
  shows "concat (map (\<lambda>h. daily_summary s) gs) =
           replicate (length gs) (GroupDailySummary (listing (by_points_desc (users_collection s))))"
proof (cases gs)
  case Nil
  then show ?thesis by simp
next
  case (Cons g gs')
  with assms have "filter active (games_collection s) \<noteq> []"
    by (auto simp: filter_empty_conv)
  then obtain a where "find_active (games_collection s) = Some a"
    using find_active_filter[of "games_collection s"] by auto
  then have one: "daily_summary s = [GroupDailySummary (listing (by_points_desc (users_collection s)))]"
    by (simp add: daily_summary_def)
  show ?thesis unfolding one by (induction gs) auto
qed

lemma check_game_end_no_active:
  "find_active (games_collection s) = None \<Longrightarrow> check_game_end tz_aware now s = Inr (s, [])"
  by (simp add: check_game_end_def find_active_filter)

lemma check_game_end_naive:
  "find_active (games_collection s) = Some g \<Longrightarrow> check_game_end False now s = Inl (TypeError, s, [])"
proof -
  assume "find_active (games_collection s) = Some g"
  then have "filter active (games_collection s) \<noteq> []"
    using find_active_filter[of "games_collection s"] by auto
  then obtain a as where "filter active (games_collection s) = a # as"
    by (cases "filter active (games_collection s)") auto
  then show ?thesis by (simp add: check_game_end_def days_passed_def)
qed

lemma check_game_end_aware_none:
  assumes "find (\<lambda>h. active h \<and> expired (duration h) (whole_days now h)) (games_collection s) = None"
  shows "check_game_end True now s =
           Inr (s, replicate (length (filter active (games_collection s)))
                     (GroupDailySummary (listing (by_points_desc (users_collection s)))))"
  using assms
  by (simp add: check_game_end_def check_loop_aware_none find_filter summaries_of_active)

lemma check_game_end_aware_first:
  assumes "find (\<lambda>h. active h \<and> expired (duration h) (whole_days now h)) (games_collection s) = Some g"
  shows "check_game_end True now s =
           Inr (s\<lparr>games_collection :=
                   update_one (\<lambda>h. gid h = gid g) (\<lambda>h. h\<lparr>active := False\<rparr>) (games_collection s)\<rparr>,
                replicate
                  (length (takeWhile (\<lambda>h. \<not> expired (duration h) (whole_days now h))
                     (filter active (games_collection s))))
                  (GroupDailySummary (listing (by_points_desc (users_collection s))))
                @ [GroupEndedDueToDuration])"
proof -
  have sub: "set (takeWhile (\<lambda>h. \<not> expired (duration h) (whole_days now h))
                (filter active (games_collection s)))
             \<subseteq> set (filter active (games_collection s))"
    by (rule set_takeWhileD[THEN conjunct1, THEN subsetI])
  from assms show ?thesis
    by (simp add: check_game_end_def check_loop_aware_first find_filter summaries_of_active[OF sub])
qed

lemma check_game_end_frame:
  "users_collection (store_after (check_game_end tz_aware now s)) = users_collection s
   \<and> map day (games_collection (store_after (check_game_end tz_aware now s)))
       = map day (games_collection s)
   \<and> map gid (games_collection (store_after (check_game_end tz_aware now s)))
       = map gid (games_collection s)"
  unfolding check_game_end_def by (rule check_loop_frame)

lemma end_day_writes_users:
  "users_collection (end_day_writes g s) =
     map (\<lambda>u. u\<lparr>streak := 0, last_claim := None\<rparr>) (users_collection s)"
  by (simp add: end_day_writes_def Let_def update_many_def)

lemma end_day_writes_game:
  assumes "find_active (games_collection s) = Some g"
    and "distinct (map gid (games_collection s))"
  shows "find_active (games_collection (end_day_writes g s)) = Some (g\<lparr>day := day g + 1\<rparr>)"
  using assms
  by (simp add: end_day_writes_def Let_def find_active_def find_update_one_key)

lemma length_update_one: "length (update_one P f xs) = length xs"
  by (induction xs) auto

section \<open>Facts about joining\<close>

lemma join_team_store:
  assumes "find_user (tg_id user_obj) (users_collection s) = None"
    and "find_active (games_collection s) = Some g"
    and "mode g = ''Team''"
    and "balance (team_1 g) (team_2 g) (get_display_name user_obj) coin = (t1, t2, m)"
  shows "join user_obj coin s =
           (s\<lparr>games_collection :=
                update_one (\<lambda>h. gid h = gid g) (\<lambda>h. h\<lparr>team_1 := t1, team_2 := t2\<rparr>)
                  (games_collection s),
              users_collection := users_collection s @
                [\<lparr>user_id = tg_id user_obj, display_name = get_display_name user_obj,
                  points = 0, streak = 0, last_claim = None\<rparr>]\<rparr>,
            [m])"
  using assms by (simp add: join_def Let_def)

section \<open>Identifiers of games stay distinct\<close>

text \<open>
  \<open>confirm_penalties\<close> is the only insertion of a game and refuses an identifier that
  is taken; the other operations keep the identifiers of the collection as they are.
\<close>

lemma confirm_penalties_distinct:
  assumes "distinct (map gid (games_collection s))"
    and "confirm_penalties from_user txt game_id now ud s = Inr (st, ud', s', out)"
  shows "distinct (map gid (games_collection s'))"
  using assms
  by (auto simp: confirm_penalties_def Let_def split: if_splits option.splits)

lemma end_day_writes_gids:
  "map gid (games_collection (end_day_writes g s)) = map gid (games_collection s)"
  by (simp add: end_day_writes_def Let_def map_update_one)

lemma join_gids:
  "map gid (games_collection (fst (join user_obj coin s))) = map gid (games_collection s)"
  by (auto simp: join_def Let_def map_update_one split: option.splits prod.splits)

lemma check_game_end_gids:
  "map gid (games_collection (store_after (check_game_end tz_aware now s)))
     = map gid (games_collection s)"
  using check_game_end_frame by blast

section \<open>The scoring and streak engine\<close>

text \<open>
  C1. Whenever the sender has not claimed on \<open>today\<close>, the claim succeeds: the new
  streak is the prior streak plus one when the last claim was on the day before
  \<open>today\<close> and one otherwise, the new points are the prior points plus one, plus three
  more exactly when the new streak is a multiple of seven, and the last claim becomes
  \<open>today\<close>. Seven claims on consecutive days from a zero state (no points, no claim
  yet) report the points 1, 2, 3, 4, 5, 6, 10.
\<close>

theorem claim_streak_and_points:
  "(last_claim (claimant user_obj s) \<noteq> Some today \<longrightarrow>
      (\<exists>s' u'. claim user_obj today s =
                  Inr (s', [Claimed (get_display_name user_obj) (streak u') (points u')])
         \<and> find_user (tg_id user_obj) (users_collection s') = Some u'
         \<and> streak u' = (if last_claim (claimant user_obj s) = Some (today - 1)
                        then streak (claimant user_obj s) + 1 else 1)
         \<and> points u' = points (claimant user_obj s) + 1 + (if streak u' mod 7 = 0 then 3 else 0)
         \<and> last_claim u' = Some today))
   \<and> (points (claimant user_obj s) = 0 \<and> last_claim (claimant user_obj s) = None \<longrightarrow>
      (\<exists>s'. run_claims user_obj [d, d + 1, d + 2, d + 3, d + 4, d + 5, d + 6] s =
         Inr (s', [Claimed (get_display_name user_obj) 1 1,
                   Claimed (get_display_name user_obj) 2 2,
                   Claimed (get_display_name user_obj) 3 3,
                   Claimed (get_display_name user_obj) 4 4,
                   Claimed (get_display_name user_obj) 5 5,
                   Claimed (get_display_name user_obj) 6 6,
                   Claimed (get_display_name user_obj) 7 10])))"
proof (intro conjI impI)
  assume "last_claim (claimant user_obj s) \<noteq> Some today"
  from claim_step[OF this] show
    "\<exists>s' u'. claim user_obj today s =
                  Inr (s', [Claimed (get_display_name user_obj) (streak u') (points u')])
         \<and> find_user (tg_id user_obj) (users_collection s') = Some u'
         \<and> streak u' = (if last_claim (claimant user_obj s) = Some (today - 1)
                        then streak (claimant user_obj s) + 1 else 1)
         \<and> points u' = points (claimant user_obj s) + 1 + (if streak u' mod 7 = 0 then 3 else 0)
         \<and> last_claim u' = Some today"
    by blast
next
  assume "points (claimant user_obj s) = 0 \<and> last_claim (claimant user_obj s) = None"
  then show "\<exists>s'. run_claims user_obj [d, d + 1, d + 2, d + 3, d + 4, d + 5, d + 6] s =
         Inr (s', [Claimed (get_display_name user_obj) 1 1,
                   Claimed (get_display_name user_obj) 2 2,
                   Claimed (get_display_name user_obj) 3 3,
                   Claimed (get_display_name user_obj) 4 4,
                   Claimed (get_display_name user_obj) 5 5,
                   Claimed (get_display_name user_obj) 6 6,
                   Claimed (get_display_name user_obj) 7 10])"
    using seven_claims by blast
qed

theorem claim_streak_and_points_witness:
  "(\<exists>s'. claim \<lparr>tg_id = 1, tg_username = Some ''alice'', tg_first_name = None, tg_last_name = None\<rparr> 10
            \<lparr>users_collection = [\<lparr>user_id = 1, display_name = ''alice'', points = 6, streak = 6,
                                   last_claim = Some 9\<rparr>],
             games_collection = []\<rparr> =
          Inr (s', [Claimed ''alice'' 7 10]))
   \<and> (\<exists>s'. run_claims \<lparr>tg_id = 1, tg_username = Some ''alice'', tg_first_name = None, tg_last_name = None\<rparr>
            [100, 101, 102, 103, 104, 105, 106]
            \<lparr>users_collection = [], games_collection = []\<rparr> =
          Inr (s', [Claimed ''alice'' 1 1, Claimed ''alice'' 2 2, Claimed ''alice'' 3 3,
                    Claimed ''alice'' 4 4, Claimed ''alice'' 5 5, Claimed ''alice'' 6 6,
                    Claimed ''alice'' 7 10]))"
  using claim_streak_and_points
          [of "\<lparr>tg_id = 1, tg_username = Some ''alice'', tg_first_name = None, tg_last_name = None\<rparr>"
              "\<lparr>users_collection = [\<lparr>user_id = 1, display_name = ''alice'', points = 6, streak = 6,
                                     last_claim = Some 9\<rparr>],
               games_collection = []\<rparr>" 10]
        claim_streak_and_points
          [of "\<lparr>tg_id = 1, tg_username = Some ''alice'', tg_first_name = None, tg_last_name = None\<rparr>"
              "\<lparr>users_collection = [], games_collection = []\<rparr>" _ 100]
  by (auto simp add: claimant_def find_user_def get_display_name_def)

text \<open>
  C4, as the code has it. When the sender's stored last claim is \<open>today\<close>, the claim is
  refused and points, streak and last claim of every document stay as they were; the
  stored display name of the sender is still replaced by the sender's current one, so
  it changes when the two differ. Nothing else in the store changes.
\<close>

theorem claim_again_same_day:
  assumes "find_user (tg_id user_obj) (users_collection s) = Some usr"
    and "last_claim usr = Some today"
  shows "claim user_obj today s =
           Inr (s\<lparr>users_collection :=
                    update_one (\<lambda>u. user_id u = tg_id user_obj)
                      (\<lambda>u. u\<lparr>display_name := get_display_name user_obj\<rparr>) (users_collection s)\<rparr>,
                [AlreadyClaimedToday])
         \<and> find_user (tg_id user_obj)
               (update_one (\<lambda>u. user_id u = tg_id user_obj)
                  (\<lambda>u. u\<lparr>display_name := get_display_name user_obj\<rparr>) (users_collection s))
             = Some (usr\<lparr>display_name := get_display_name user_obj\<rparr>)
         \<and> map points (update_one (\<lambda>u. user_id u = tg_id user_obj)
                  (\<lambda>u. u\<lparr>display_name := get_display_name user_obj\<rparr>) (users_collection s))
             = map points (users_collection s)
         \<and> map streak (update_one (\<lambda>u. user_id u = tg_id user_obj)
                  (\<lambda>u. u\<lparr>display_name := get_display_name user_obj\<rparr>) (users_collection s))
             = map streak (users_collection s)
         \<and> map last_claim (update_one (\<lambda>u. user_id u = tg_id user_obj)
                  (\<lambda>u. u\<lparr>display_name := get_display_name user_obj\<rparr>) (users_collection s))
             = map last_claim (users_collection s)"
proof -
  let ?rename = "\<lambda>u::user. u\<lparr>display_name := get_display_name user_obj\<rparr>"
  let ?mine = "\<lambda>u::user. user_id u = tg_id user_obj"
  have same: "update_one ?mine ?rename (users_collection s) = users_collection s"
    if "display_name usr = get_display_name user_obj"
  proof (rule update_one_fixed)
    show "find ?mine (users_collection s) = Some usr"
      using assms(1) by (simp add: find_user_def)
    show "?rename usr = usr"
      using that by (rule rename_same)
  qed
  have "claim user_obj today s =
          Inr (s\<lparr>users_collection := update_one ?mine ?rename (users_collection s)\<rparr>,
               [AlreadyClaimedToday])"
    using assms same by (simp add: claim_def claim_today_def Let_def)
  moreover have "find_user (tg_id user_obj) (update_one ?mine ?rename (users_collection s))
      = Some (?rename usr)"
    using assms(1) find_user_id[OF assms(1)]
    by (simp add: find_user_def find_update_one)
  ultimately show ?thesis
    by (simp add: map_update_one)
qed

theorem claim_again_same_day_witness:
  "claim \<lparr>tg_id = 1, tg_username = Some ''alice'', tg_first_name = None, tg_last_name = None\<rparr> 100
     \<lparr>users_collection = [\<lparr>user_id = 1, display_name = ''alice'', points = 5, streak = 2,
                            last_claim = Some 100\<rparr>],
      games_collection = []\<rparr>
   = Inr (\<lparr>users_collection = [\<lparr>user_id = 1, display_name = ''alice'', points = 5, streak = 2,
                                  last_claim = Some 100\<rparr>],
            games_collection = []\<rparr>, [AlreadyClaimedToday])"
  using claim_again_same_day
          [of "\<lparr>tg_id = 1, tg_username = Some ''alice'', tg_first_name = None, tg_last_name = None\<rparr>"
              "\<lparr>users_collection = [\<lparr>user_id = 1, display_name = ''alice'', points = 5, streak = 2,
                                     last_claim = Some 100\<rparr>],
               games_collection = []\<rparr>"
              "\<lparr>user_id = 1, display_name = ''alice'', points = 5, streak = 2,
                last_claim = Some 100\<rparr>" 100]
  by (simp add: find_user_def get_display_name_def)

text \<open>
  The stored display name does change on a refused claim: the sender was stored as
  \<open>al\<close> and is now called \<open>alice\<close>.
\<close>

theorem claim_again_same_day_renames:
  "claim \<lparr>tg_id = 1, tg_username = Some ''alice'', tg_first_name = None, tg_last_name = None\<rparr> 100
     \<lparr>users_collection = [\<lparr>user_id = 1, display_name = ''al'', points = 5, streak = 2,
                            last_claim = Some 100\<rparr>],
      games_collection = []\<rparr>
   = Inr (\<lparr>users_collection = [\<lparr>user_id = 1, display_name = ''alice'', points = 5, streak = 2,
                                  last_claim = Some 100\<rparr>],
            games_collection = []\<rparr>, [AlreadyClaimedToday])
   \<and> map display_name [\<lparr>user_id = 1, display_name = ''alice'', points = 5, streak = 2,
                         last_claim = Some (100::int)\<rparr>]
     \<noteq> map display_name [\<lparr>user_id = 1, display_name = ''al'', points = 5, streak = 2,
                           last_claim = Some (100::int)\<rparr>]"
  by (simp add: claim_def claim_today_def find_user_def get_display_name_def Let_def)

text \<open>
  C10. A claim never reads the games: with no active game (in particular with no game
  at all) the first claim of a sender creates the user document and scores it as any
  first claim, one point and a streak of one.
\<close>

theorem claim_without_active_game:
  assumes "find_active (games_collection s) = None"
    and "find_user (tg_id user_obj) (users_collection s) = None"
  shows "claim user_obj today s =
           Inr (s\<lparr>users_collection := users_collection s @
                   [\<lparr>user_id = tg_id user_obj, display_name = get_display_name user_obj,
                     points = 1, streak = 1, last_claim = Some today\<rparr>]\<rparr>,
                [Claimed (get_display_name user_obj) 1 1])"
  using assms(2) by (rule claim_new_user)

theorem claim_without_active_game_witness:
  "claim \<lparr>tg_id = 7, tg_username = None, tg_first_name = Some ''Bo'', tg_last_name = Some ''Li''\<rparr> 100
     \<lparr>users_collection = [], games_collection = []\<rparr>
   = Inr (\<lparr>users_collection = [\<lparr>user_id = 7, display_name = ''Bo Li'', points = 1, streak = 1,
                                  last_claim = Some 100\<rparr>],
            games_collection = []\<rparr>, [Claimed ''Bo Li'' 1 1])"
  using claim_without_active_game
          [of "\<lparr>users_collection = [], games_collection = []\<rparr>"
              "\<lparr>tg_id = 7, tg_username = None, tg_first_name = Some ''Bo'', tg_last_name = Some ''Li''\<rparr>"
              100]
  by (simp add: find_active_def find_user_def get_display_name_def)

section \<open>The day and game lifecycle\<close>

text \<open>
  C3. The administrator ends a day of an active game of duration \<open>1 week\<close>,
  \<open>2 weeks\<close> or \<open>1 month\<close> (threshold \<open>N\<close> of 7, 14 or 30 days). When the
  incremented day counter exceeds \<open>N\<close>, \<open>end_day\<close> is the call of \<open>end_game\<close> on the
  store it has written: it sends the final leaderboard and the end of the game, not the
  announcement of a new day, and no game and no user is left in the store.
\<close>

theorem end_day_past_threshold_ends_game:
  assumes "tg_id from_user = admin_id"
    and "find_active (games_collection s) = Some g"
    and "duration g = ''1 week'' \<and> N = 7 \<or> duration g = ''2 weeks'' \<and> N = 14
         \<or> duration g = ''1 month'' \<and> N = 30"
    and "day g + 1 > N"
  shows "end_day admin_id from_user s = end_game admin_id from_user (end_day_writes g s)
       \<and> fst (end_day admin_id from_user s) = \<lparr>users_collection = [], games_collection = []\<rparr>
       \<and> snd (end_day admin_id from_user s) = leaderboard (end_day_writes g s) @ [GameEnded]
       \<and> DayEnded (day g) (day g + 1) \<notin> set (snd (end_day admin_id from_user s))"
proof -
  have ends: "end_day admin_id from_user s = end_game admin_id from_user (end_day_writes g s)"
    by (rule end_day_ends_game(1)[OF assms])
  have wiped: "end_day admin_id from_user s =
      (\<lparr>users_collection = [], games_collection = []\<rparr>,
       leaderboard (end_day_writes g s) @ [GameEnded])"
    by (rule end_day_ends_game(2)[OF assms])
  show ?thesis
    by (intro conjI) (rule ends, simp_all add: wiped leaderboard_no_day_ended)
qed

theorem end_day_past_threshold_ends_game_witness:
  "end_day 9 \<lparr>tg_id = 9, tg_username = Some ''admin'', tg_first_name = None, tg_last_name = None\<rparr>
     \<lparr>users_collection = [\<lparr>user_id = 1, display_name = ''alice'', points = 10, streak = 7,
                            last_claim = Some 106\<rparr>],
      games_collection = [\<lparr>gid = ''g1'', mode = ''Individual'', duration = ''1 week'',
                            penalties = False, team_1 = [], team_2 = [], scores = [],
                            active = True, day = 7, start_date = 0\<rparr>]\<rparr>
   = (\<lparr>users_collection = [], games_collection = []\<rparr>,
      [LeaderboardIndividual [(''alice'', 10)], GameEnded])"
  using end_day_past_threshold_ends_game
          [of "\<lparr>tg_id = 9, tg_username = Some ''admin'', tg_first_name = None, tg_last_name = None\<rparr>" 9
              "\<lparr>users_collection = [\<lparr>user_id = 1, display_name = ''alice'', points = 10, streak = 7,
                                     last_claim = Some 106\<rparr>],
               games_collection = [\<lparr>gid = ''g1'', mode = ''Individual'', duration = ''1 week'',
                                     penalties = False, team_1 = [], team_2 = [], scores = [],
                                     active = True, day = 7, start_date = 0\<rparr>]\<rparr>"
              "\<lparr>gid = ''g1'', mode = ''Individual'', duration = ''1 week'',
                penalties = False, team_1 = [], team_2 = [], scores = [],
                active = True, day = 7, start_date = 0\<rparr>" 7]
  by (simp add: find_active_def end_day_def end_game_def end_day_writes_def update_many_def
      leaderboard_def board_def by_points_desc_def listing_def Let_def)

text \<open>
  C7. The writes of \<open>end_day\<close> (made on every call by the administrator with an active
  game, before the duration is checked): the day counter of the active game goes up by
  one, every user's streak becomes 0 and last claim absent, and points, display names
  and user ids stay. \<open>end_day\<close> returns that store when the game goes on, and hands it
  to \<open>end_game\<close> when the threshold is passed. Identifiers of games are distinct, as
  the collection enforces.
\<close>

theorem end_day_resets_daily_state:
  assumes "tg_id from_user = admin_id"
    and "find_active (games_collection s) = Some g"
    and "distinct (map gid (games_collection s))"
  shows "end_day admin_id from_user s =
           (if duration g = ''1 week'' \<and> day g + 1 > 7
               \<or> duration g = ''2 weeks'' \<and> day g + 1 > 14
               \<or> duration g = ''1 month'' \<and> day g + 1 > 30
            then end_game admin_id from_user (end_day_writes g s)
            else (end_day_writes g s,
                  DayEnded (day g) (day g + 1) # daily_summary (end_day_writes g s)))
       \<and> find_active (games_collection (end_day_writes g s)) = Some (g\<lparr>day := day g + 1\<rparr>)
       \<and> map streak (users_collection (end_day_writes g s))
           = replicate (length (users_collection s)) 0
       \<and> map last_claim (users_collection (end_day_writes g s))
           = replicate (length (users_collection s)) None
       \<and> map points (users_collection (end_day_writes g s)) = map points (users_collection s)
       \<and> map display_name (users_collection (end_day_writes g s))
           = map display_name (users_collection s)
       \<and> map user_id (users_collection (end_day_writes g s)) = map user_id (users_collection s)"
proof (intro conjI)
  show "end_day admin_id from_user s =
           (if duration g = ''1 week'' \<and> day g + 1 > 7
               \<or> duration g = ''2 weeks'' \<and> day g + 1 > 14
               \<or> duration g = ''1 month'' \<and> day g + 1 > 30
            then end_game admin_id from_user (end_day_writes g s)
            else (end_day_writes g s,
                  DayEnded (day g) (day g + 1) # daily_summary (end_day_writes g s)))"
    by (rule end_day_cases[OF assms(1,2)])
  show "find_active (games_collection (end_day_writes g s)) = Some (g\<lparr>day := day g + 1\<rparr>)"
    by (rule end_day_writes_game[OF assms(2,3)])
  show "map streak (users_collection (end_day_writes g s))
           = replicate (length (users_collection s)) 0"
    by (simp add: end_day_writes_users map_replicate_const comp_def)
  show "map last_claim (users_collection (end_day_writes g s))
           = replicate (length (users_collection s)) None"
    by (simp add: end_day_writes_users map_replicate_const comp_def)
  show "map points (users_collection (end_day_writes g s)) = map points (users_collection s)"
    by (simp add: end_day_writes_users comp_def)
  show "map display_name (users_collection (end_day_writes g s))
           = map display_name (users_collection s)"
    by (simp add: end_day_writes_users comp_def)
  show "map user_id (users_collection (end_day_writes g s)) = map user_id (users_collection s)"
    by (simp add: end_day_writes_users comp_def)
qed

theorem end_day_resets_daily_state_witness:
  "end_day 9 \<lparr>tg_id = 9, tg_username = Some ''admin'', tg_first_name = None, tg_last_name = None\<rparr>
     \<lparr>users_collection = [\<lparr>user_id = 1, display_name = ''alice'', points = 4, streak = 3,
                            last_claim = Some 102\<rparr>,
                           \<lparr>user_id = 2, display_name = ''bob'', points = 6, streak = 0,
                            last_claim = None\<rparr>],
      games_collection = [\<lparr>gid = ''g1'', mode = ''Individual'', duration = ''1 week'',
                            penalties = False, team_1 = [], team_2 = [], scores = [],
                            active = True, day = 3, start_date = 0\<rparr>]\<rparr>
   = (\<lparr>users_collection = [\<lparr>user_id = 1, display_name = ''alice'', points = 4, streak = 0,
                             last_claim = None\<rparr>,
                            \<lparr>user_id = 2, display_name = ''bob'', points = 6, streak = 0,
                             last_claim = None\<rparr>],
       games_collection = [\<lparr>gid = ''g1'', mode = ''Individual'', duration = ''1 week'',
                             penalties = False, team_1 = [], team_2 = [], scores = [],
                             active = True, day = 4, start_date = 0\<rparr>]\<rparr>,
      [DayEnded 3 4, GroupDailySummary [(''bob'', 6), (''alice'', 4)]])"
  using end_day_resets_daily_state
          [of "\<lparr>tg_id = 9, tg_username = Some ''admin'', tg_first_name = None, tg_last_name = None\<rparr>" 9
              "\<lparr>users_collection = [\<lparr>user_id = 1, display_name = ''alice'', points = 4, streak = 3,
                                     last_claim = Some 102\<rparr>,
                                    \<lparr>user_id = 2, display_name = ''bob'', points = 6, streak = 0,
                                     last_claim = None\<rparr>],
               games_collection = [\<lparr>gid = ''g1'', mode = ''Individual'', duration = ''1 week'',
                                     penalties = False, team_1 = [], team_2 = [], scores = [],
                                     active = True, day = 3, start_date = 0\<rparr>]\<rparr>"
              "\<lparr>gid = ''g1'', mode = ''Individual'', duration = ''1 week'',
                penalties = False, team_1 = [], team_2 = [], scores = [],
                active = True, day = 3, start_date = 0\<rparr>"]
  by (simp add: find_active_def end_day_writes_def update_many_def daily_summary_def
      by_points_desc_def listing_def Let_def)

text \<open>
  C6, as the code has it. \<open>end_game\<close>, and \<open>end_day\<close> past the threshold, leave no
  game and no user. The scheduled \<open>check_game_end\<close> deletes nothing. With a client
  that is not \<open>tz_aware\<close> it raises \<open>TypeError\<close> as soon as there is an active game,
  before any write or message, so the store stays as it is and the game stays active.
  With a \<open>tz_aware\<close> client it marks the first expired active game inactive and keeps
  it, every other game and every user, in the store.
\<close>

theorem game_end_paths:
  "(tg_id from_user = admin_id \<and> find_active (games_collection s) = Some g \<longrightarrow>
      fst (end_game admin_id from_user s) = \<lparr>users_collection = [], games_collection = []\<rparr>)
   \<and> (tg_id from_user = admin_id \<and> find_active (games_collection s) = Some g
        \<and> (duration g = ''1 week'' \<and> day g + 1 > 7 \<or> duration g = ''2 weeks'' \<and> day g + 1 > 14
             \<or> duration g = ''1 month'' \<and> day g + 1 > 30) \<longrightarrow>
      fst (end_day admin_id from_user s) = \<lparr>users_collection = [], games_collection = []\<rparr>)
   \<and> (find_active (games_collection s) = Some g \<longrightarrow>
      check_game_end False now s = Inl (TypeError, s, []))
   \<and> (find (\<lambda>h. active h \<and> expired (duration h) (whole_days now h)) (games_collection s) = Some g
        \<and> distinct (map gid (games_collection s)) \<longrightarrow>
      (\<exists>out. check_game_end True now s =
          Inr (s\<lparr>games_collection :=
                  update_one (\<lambda>h. gid h = gid g) (\<lambda>h. h\<lparr>active := False\<rparr>) (games_collection s)\<rparr>,
               out))
      \<and> g\<lparr>active := False\<rparr>
          \<in> set (update_one (\<lambda>h. gid h = gid g) (\<lambda>h. h\<lparr>active := False\<rparr>) (games_collection s))
      \<and> length (update_one (\<lambda>h. gid h = gid g) (\<lambda>h. h\<lparr>active := False\<rparr>) (games_collection s))
          = length (games_collection s))"
proof (intro conjI impI)
  assume "tg_id from_user = admin_id \<and> find_active (games_collection s) = Some g"
  then show "fst (end_game admin_id from_user s) = \<lparr>users_collection = [], games_collection = []\<rparr>"
    by (simp add: end_game_wipes)
next
  assume a: "tg_id from_user = admin_id \<and> find_active (games_collection s) = Some g
        \<and> (duration g = ''1 week'' \<and> day g + 1 > 7 \<or> duration g = ''2 weeks'' \<and> day g + 1 > 14
             \<or> duration g = ''1 month'' \<and> day g + 1 > 30)"
  then obtain N where "duration g = ''1 week'' \<and> N = 7 \<or> duration g = ''2 weeks'' \<and> N = 14
              \<or> duration g = ''1 month'' \<and> N = 30" and "day g + 1 > N"
    by auto
  with a end_day_ends_game(2)[of from_user admin_id s g N]
  show "fst (end_day admin_id from_user s) = \<lparr>users_collection = [], games_collection = []\<rparr>"
    by simp
next
  assume "find_active (games_collection s) = Some g"
  then show "check_game_end False now s = Inl (TypeError, s, [])"
    by (rule check_game_end_naive)
next
  assume a: "find (\<lambda>h. active h \<and> expired (duration h) (whole_days now h)) (games_collection s) = Some g
        \<and> distinct (map gid (games_collection s))"
  then show "\<exists>out. check_game_end True now s =
          Inr (s\<lparr>games_collection :=
                  update_one (\<lambda>h. gid h = gid g) (\<lambda>h. h\<lparr>active := False\<rparr>) (games_collection s)\<rparr>,
               out)"
    by (simp add: check_game_end_aware_first)
  from a have mem: "g \<in> set (games_collection s)"
    by (auto simp: find_Some_iff)
  show "g\<lparr>active := False\<rparr>
          \<in> set (update_one (\<lambda>h. gid h = gid g) (\<lambda>h. h\<lparr>active := False\<rparr>) (games_collection s))"
    using update_one_key_mem[OF mem, of gid "\<lambda>h. h\<lparr>active := False\<rparr>"] a by simp
  show "length (update_one (\<lambda>h. gid h = gid g) (\<lambda>h. h\<lparr>active := False\<rparr>) (games_collection s))
          = length (games_collection s)"
    by (rule length_update_one)
qed

theorem game_end_paths_witness:
  "fst (end_game 9 \<lparr>tg_id = 9, tg_username = Some ''admin'', tg_first_name = None, tg_last_name = None\<rparr>
         \<lparr>users_collection = [\<lparr>user_id = 1, display_name = ''alice'', points = 4, streak = 3,
                                last_claim = Some 102\<rparr>],
          games_collection = [\<lparr>gid = ''g1'', mode = ''Individual'', duration = ''1 week'',
                                penalties = False, team_1 = [], team_2 = [], scores = [],
                                active = True, day = 7, start_date = 0\<rparr>]\<rparr>)
     = \<lparr>users_collection = [], games_collection = []\<rparr>
   \<and> fst (end_day 9 \<lparr>tg_id = 9, tg_username = Some ''admin'', tg_first_name = None, tg_last_name = None\<rparr>
         \<lparr>users_collection = [\<lparr>user_id = 1, display_name = ''alice'', points = 4, streak = 3,
                                last_claim = Some 102\<rparr>],
          games_collection = [\<lparr>gid = ''g1'', mode = ''Individual'', duration = ''1 week'',
                                penalties = False, team_1 = [], team_2 = [], scores = [],
                                active = True, day = 7, start_date = 0\<rparr>]\<rparr>)
     = \<lparr>users_collection = [], games_collection = []\<rparr>
   \<and> check_game_end False 604800000000
         \<lparr>users_collection = [\<lparr>user_id = 1, display_name = ''alice'', points = 4, streak = 3,
                                last_claim = Some 102\<rparr>],
          games_collection = [\<lparr>gid = ''g1'', mode = ''Individual'', duration = ''1 week'',
                                penalties = False, team_1 = [], team_2 = [], scores = [],
                                active = True, day = 7, start_date = 0\<rparr>]\<rparr>
     = Inl (TypeError,
            \<lparr>users_collection = [\<lparr>user_id = 1, display_name = ''alice'', points = 4, streak = 3,
                                   last_claim = Some 102\<rparr>],
             games_collection = [\<lparr>gid = ''g1'', mode = ''Individual'', duration = ''1 week'',
                                   penalties = False, team_1 = [], team_2 = [], scores = [],
                                   active = True, day = 7, start_date = 0\<rparr>]\<rparr>, [])
   \<and> (\<exists>out. check_game_end True 604800000000
         \<lparr>users_collection = [\<lparr>user_id = 1, display_name = ''alice'', points = 4, streak = 3,
                                last_claim = Some 102\<rparr>],
          games_collection = [\<lparr>gid = ''g1'', mode = ''Individual'', duration = ''1 week'',
                                penalties = False, team_1 = [], team_2 = [], scores = [],
                                active = True, day = 7, start_date = 0\<rparr>]\<rparr>
     = Inr (\<lparr>users_collection = [\<lparr>user_id = 1, display_name = ''alice'', points = 4, streak = 3,
                                   last_claim = Some 102\<rparr>],
             games_collection = [\<lparr>gid = ''g1'', mode = ''Individual'', duration = ''1 week'',
                                   penalties = False, team_1 = [], team_2 = [], scores = [],
                                   active = False, day = 7, start_date = 0\<rparr>]\<rparr>, out))"
  using game_end_paths
          [of "\<lparr>tg_id = 9, tg_username = Some ''admin'', tg_first_name = None, tg_last_name = None\<rparr>" 9
              "\<lparr>users_collection = [\<lparr>user_id = 1, display_name = ''alice'', points = 4, streak = 3,
                                     last_claim = Some 102\<rparr>],
               games_collection = [\<lparr>gid = ''g1'', mode = ''Individual'', duration = ''1 week'',
                                     penalties = False, team_1 = [], team_2 = [], scores = [],
                                     active = True, day = 7, start_date = 0\<rparr>]\<rparr>"
              "\<lparr>gid = ''g1'', mode = ''Individual'', duration = ''1 week'',
                penalties = False, team_1 = [], team_2 = [], scores = [],
                active = True, day = 7, start_date = 0\<rparr>" 604800000000]
  by (simp add: find_active_def expired_def whole_days_def)

text \<open>
  A one-week game that started seven days ago. After the scheduled check the game and
  the user are still in the store, whichever client is configured: unchanged when the
  check raises, and with \<open>active = False\<close> when the client is \<open>tz_aware\<close>.
\<close>

theorem scheduler_expiry_keeps_records:
  "check_game_end False 604800000000
     \<lparr>users_collection = [\<lparr>user_id = 1, display_name = ''alice'', points = 4, streak = 3,
                            last_claim = Some 102\<rparr>],
      games_collection = [\<lparr>gid = ''g1'', mode = ''Individual'', duration = ''1 week'',
                            penalties = False, team_1 = [], team_2 = [], scores = [],
                            active = True, day = 7, start_date = 0\<rparr>]\<rparr>
   = Inl (TypeError,
          \<lparr>users_collection = [\<lparr>user_id = 1, display_name = ''alice'', points = 4, streak = 3,
                                 last_claim = Some 102\<rparr>],
           games_collection = [\<lparr>gid = ''g1'', mode = ''Individual'', duration = ''1 week'',
                                 penalties = False, team_1 = [], team_2 = [], scores = [],
                                 active = True, day = 7, start_date = 0\<rparr>]\<rparr>, [])
   \<and> check_game_end True 604800000000
       \<lparr>users_collection = [\<lparr>user_id = 1, display_name = ''alice'', points = 4, streak = 3,
                              last_claim = Some 102\<rparr>],
        games_collection = [\<lparr>gid = ''g1'', mode = ''Individual'', duration = ''1 week'',
                              penalties = False, team_1 = [], team_2 = [], scores = [],
                              active = True, day = 7, start_date = 0\<rparr>]\<rparr>
     = Inr (\<lparr>users_collection = [\<lparr>user_id = 1, display_name = ''alice'', points = 4, streak = 3,
                                   last_claim = Some 102\<rparr>],
             games_collection = [\<lparr>gid = ''g1'', mode = ''Individual'', duration = ''1 week'',
                                   penalties = False, team_1 = [], team_2 = [], scores = [],
                                   active = False, day = 7, start_date = 0\<rparr>]\<rparr>,
            [GroupEndedDueToDuration])"
  by (simp add: check_game_end_def days_passed_def whole_days_def expired_def)

text \<open>
  C8, as the code has it. The scheduled job is \<open>check_game_end\<close>, not the day advance:
  whether it returns or raises, the day counter of every game and every user document
  are as they were. With no active game it does nothing. With an active game and a
  client that is not \<open>tz_aware\<close> it raises \<open>TypeError\<close> before any write or message.
  With a \<open>tz_aware\<close> client and no expired active game it sends one daily summary for
  each active game and leaves the store as it was; with an expired active game it
  sends a summary for each active game before the first expired one, marks that one
  inactive and announces the end.
\<close>

theorem scheduled_check_never_advances_day:
  "map day (games_collection (store_after (scheduled_check_game_end tz_aware now s)))
     = map day (games_collection s)
   \<and> users_collection (store_after (scheduled_check_game_end tz_aware now s)) = users_collection s
   \<and> (find_active (games_collection s) = None \<longrightarrow>
        scheduled_check_game_end tz_aware now s = Inr (s, []))
   \<and> (find_active (games_collection s) = Some a \<longrightarrow>
        scheduled_check_game_end False now s = Inl (TypeError, s, []))
   \<and> (find (\<lambda>h. active h \<and> expired (duration h) (whole_days now h)) (games_collection s) = None \<longrightarrow>
        scheduled_check_game_end True now s =
          Inr (s, replicate (length (filter active (games_collection s)))
                    (GroupDailySummary (listing (by_points_desc (users_collection s))))))
   \<and> (find (\<lambda>h. active h \<and> expired (duration h) (whole_days now h)) (games_collection s) = Some g \<longrightarrow>
        scheduled_check_game_end True now s =
          Inr (s\<lparr>games_collection :=
                  update_one (\<lambda>h. gid h = gid g) (\<lambda>h. h\<lparr>active := False\<rparr>) (games_collection s)\<rparr>,
               replicate
                 (length (takeWhile (\<lambda>h. \<not> expired (duration h) (whole_days now h))
                    (filter active (games_collection s))))
                 (GroupDailySummary (listing (by_points_desc (users_collection s))))
               @ [GroupEndedDueToDuration]))"
  unfolding scheduled_check_game_end_def
  using check_game_end_frame[of tz_aware now s]
  by (intro conjI impI)
     (simp_all add: check_game_end_no_active check_game_end_naive check_game_end_aware_none
        check_game_end_aware_first)

theorem scheduled_check_never_advances_day_witness:
  "scheduled_check_game_end False 604800000000
     \<lparr>users_collection = [\<lparr>user_id = 1, display_name = ''alice'', points = 3, streak = 1,
                            last_claim = Some 100\<rparr>],
      games_collection = [\<lparr>gid = ''g1'', mode = ''Individual'', duration = ''2 weeks'',
                            penalties = False, team_1 = [], team_2 = [], scores = [],
                            active = True, day = 1, start_date = 0\<rparr>,
                          \<lparr>gid = ''g2'', mode = ''Individual'', duration = ''1 week'',
                            penalties = False, team_1 = [], team_2 = [], scores = [],
                            active = True, day = 1, start_date = 0\<rparr>]\<rparr>
   = Inl (TypeError,
          \<lparr>users_collection = [\<lparr>user_id = 1, display_name = ''alice'', points = 3, streak = 1,
                                 last_claim = Some 100\<rparr>],
           games_collection = [\<lparr>gid = ''g1'', mode = ''Individual'', duration = ''2 weeks'',
                                 penalties = False, team_1 = [], team_2 = [], scores = [],
                                 active = True, day = 1, start_date = 0\<rparr>,
                               \<lparr>gid = ''g2'', mode = ''Individual'', duration = ''1 week'',
                                 penalties = False, team_1 = [], team_2 = [], scores = [],
                                 active = True, day = 1, start_date = 0\<rparr>]\<rparr>, [])
   \<and> scheduled_check_game_end True 604800000000
     \<lparr>users_collection = [\<lparr>user_id = 1, display_name = ''alice'', points = 3, streak = 1,
                            last_claim = Some 100\<rparr>],
      games_collection = [\<lparr>gid = ''g1'', mode = ''Individual'', duration = ''2 weeks'',
                            penalties = False, team_1 = [], team_2 = [], scores = [],
                            active = True, day = 1, start_date = 0\<rparr>,
                          \<lparr>gid = ''g2'', mode = ''Individual'', duration = ''1 week'',
                            penalties = False, team_1 = [], team_2 = [], scores = [],
                            active = True, day = 1, start_date = 0\<rparr>]\<rparr>
   = Inr (\<lparr>users_collection = [\<lparr>user_id = 1, display_name = ''alice'', points = 3, streak = 1,
                                 last_claim = Some 100\<rparr>],
           games_collection = [\<lparr>gid = ''g1'', mode = ''Individual'', duration = ''2 weeks'',
                                 penalties = False, team_1 = [], team_2 = [], scores = [],
                                 active = True, day = 1, start_date = 0\<rparr>,
                               \<lparr>gid = ''g2'', mode = ''Individual'', duration = ''1 week'',
                                 penalties = False, team_1 = [], team_2 = [], scores = [],
                                 active = False, day = 1, start_date = 0\<rparr>]\<rparr>,
          [GroupDailySummary [(''alice'', 3)], GroupEndedDueToDuration])
   \<and> scheduled_check_game_end True 86400000000
     \<lparr>users_collection = [\<lparr>user_id = 1, display_name = ''alice'', points = 3, streak = 1,
                            last_claim = Some 100\<rparr>],
      games_collection = [\<lparr>gid = ''g1'', mode = ''Individual'', duration = ''2 weeks'',
                            penalties = False, team_1 = [], team_2 = [], scores = [],
                            active = True, day = 1, start_date = 0\<rparr>,
                          \<lparr>gid = ''g2'', mode = ''Individual'', duration = ''1 week'',
                            penalties = False, team_1 = [], team_2 = [], scores = [],
                            active = True, day = 1, start_date = 0\<rparr>]\<rparr>
   = Inr (\<lparr>users_collection = [\<lparr>user_id = 1, display_name = ''alice'', points = 3, streak = 1,
                                 last_claim = Some 100\<rparr>],
           games_collection = [\<lparr>gid = ''g1'', mode = ''Individual'', duration = ''2 weeks'',
                                 penalties = False, team_1 = [], team_2 = [], scores = [],
                                 active = True, day = 1, start_date = 0\<rparr>,
                               \<lparr>gid = ''g2'', mode = ''Individual'', duration = ''1 week'',
                                 penalties = False, team_1 = [], team_2 = [], scores = [],
                                 active = True, day = 1, start_date = 0\<rparr>]\<rparr>,
          [GroupDailySummary [(''alice'', 3)], GroupDailySummary [(''alice'', 3)]])"
  using scheduled_check_never_advances_day
          [where s = "\<lparr>users_collection = [\<lparr>user_id = 1, display_name = ''alice'', points = 3,
                                             streak = 1, last_claim = Some 100\<rparr>],
                       games_collection = [\<lparr>gid = ''g1'', mode = ''Individual'', duration = ''2 weeks'',
                                             penalties = False, team_1 = [], team_2 = [], scores = [],
                                             active = True, day = 1, start_date = 0\<rparr>,
                                           \<lparr>gid = ''g2'', mode = ''Individual'', duration = ''1 week'',
                                             penalties = False, team_1 = [], team_2 = [], scores = [],
                                             active = True, day = 1, start_date = 0\<rparr>]\<rparr>"
             and now = 604800000000
             and a = "\<lparr>gid = ''g1'', mode = ''Individual'', duration = ''2 weeks'',
                       penalties = False, team_1 = [], team_2 = [], scores = [],
                       active = True, day = 1, start_date = 0\<rparr>"
             and g = "\<lparr>gid = ''g2'', mode = ''Individual'', duration = ''1 week'',
                       penalties = False, team_1 = [], team_2 = [], scores = [],
                       active = True, day = 1, start_date = 0\<rparr>"]
        scheduled_check_never_advances_day
          [where s = "\<lparr>users_collection = [\<lparr>user_id = 1, display_name = ''alice'', points = 3,
                                             streak = 1, last_claim = Some 100\<rparr>],
                       games_collection = [\<lparr>gid = ''g1'', mode = ''Individual'', duration = ''2 weeks'',
                                             penalties = False, team_1 = [], team_2 = [], scores = [],
                                             active = True, day = 1, start_date = 0\<rparr>,
                                           \<lparr>gid = ''g2'', mode = ''Individual'', duration = ''1 week'',
                                             penalties = False, team_1 = [], team_2 = [], scores = [],
                                             active = True, day = 1, start_date = 0\<rparr>]\<rparr>"
             and now = 86400000000]
  by (simp add: find_active_def expired_def whole_days_def by_points_desc_def listing_def)

text \<open>
  One day into a one-week game on day 1: the scheduled check leaves the day at 1 under
  either client, the administrator's \<open>end_day\<close> moves it to 2.
\<close>

theorem scheduled_check_is_not_end_day:
  "scheduled_check_game_end False 86400000000
     \<lparr>users_collection = [\<lparr>user_id = 1, display_name = ''alice'', points = 1, streak = 1,
                            last_claim = Some 100\<rparr>],
      games_collection = [\<lparr>gid = ''g1'', mode = ''Individual'', duration = ''1 week'',
                            penalties = False, team_1 = [], team_2 = [], scores = [],
                            active = True, day = 1, start_date = 0\<rparr>]\<rparr>
   = Inl (TypeError,
          \<lparr>users_collection = [\<lparr>user_id = 1, display_name = ''alice'', points = 1, streak = 1,
                                 last_claim = Some 100\<rparr>],
           games_collection = [\<lparr>gid = ''g1'', mode = ''Individual'', duration = ''1 week'',
                                 penalties = False, team_1 = [], team_2 = [], scores = [],
                                 active = True, day = 1, start_date = 0\<rparr>]\<rparr>, [])
   \<and> scheduled_check_game_end True 86400000000
     \<lparr>users_collection = [\<lparr>user_id = 1, display_name = ''alice'', points = 1, streak = 1,
                            last_claim = Some 100\<rparr>],
      games_collection = [\<lparr>gid = ''g1'', mode = ''Individual'', duration = ''1 week'',
                            penalties = False, team_1 = [], team_2 = [], scores = [],
                            active = True, day = 1, start_date = 0\<rparr>]\<rparr>
   = Inr (\<lparr>users_collection = [\<lparr>user_id = 1, display_name = ''alice'', points = 1, streak = 1,
                                 last_claim = Some 100\<rparr>],
           games_collection = [\<lparr>gid = ''g1'', mode = ''Individual'', duration = ''1 week'',
                                 penalties = False, team_1 = [], team_2 = [], scores = [],
                                 active = True, day = 1, start_date = 0\<rparr>]\<rparr>,
          [GroupDailySummary [(''alice'', 1)]])
   \<and> fst (end_day 9
     \<lparr>tg_id = 9, tg_username = Some ''admin'', tg_first_name = None, tg_last_name = None\<rparr>
     \<lparr>users_collection = [\<lparr>user_id = 1, display_name = ''alice'', points = 1, streak = 1,
                            last_claim = Some 100\<rparr>],
      games_collection = [\<lparr>gid = ''g1'', mode = ''Individual'', duration = ''1 week'',
                            penalties = False, team_1 = [], team_2 = [], scores = [],
                            active = True, day = 1, start_date = 0\<rparr>]\<rparr>)
   = \<lparr>users_collection = [\<lparr>user_id = 1, display_name = ''alice'', points = 1, streak = 0,
                            last_claim = None\<rparr>],
      games_collection = [\<lparr>gid = ''g1'', mode = ''Individual'', duration = ''1 week'',
                            penalties = False, team_1 = [], team_2 = [], scores = [],
                            active = True, day = 2, start_date = 0\<rparr>]\<rparr>"
  by (simp add: scheduled_check_game_end_def check_game_end_def expired_def days_passed_def
      whole_days_def daily_summary_def find_active_def end_day_def end_day_writes_def
      update_many_def by_points_desc_def listing_def Let_def)

section \<open>The team balancer\<close>

text \<open>
  C9. A sender with no user document joins an active game in Team mode. The name goes
  to the end of the strictly smaller roster when the sizes differ; with equal sizes it
  goes to Team A or Team B as the random choice says. In every case one roster is the
  old one with the name appended and the other is unchanged. Identifiers of games are
  distinct, as the collection enforces.
\<close>

theorem join_team_balance:
  assumes "find_user (tg_id user_obj) (users_collection s) = None"
    and "find_active (games_collection s) = Some g"
    and "mode g = ''Team''"
    and "distinct (map gid (games_collection s))"
  shows "\<exists>g'. find_active (games_collection (fst (join user_obj coin s))) = Some g'
      \<and> (length (team_1 g) < length (team_2 g) \<longrightarrow>
           team_1 g' = team_1 g @ [get_display_name user_obj] \<and> team_2 g' = team_2 g)
      \<and> (length (team_2 g) < length (team_1 g) \<longrightarrow>
           team_1 g' = team_1 g \<and> team_2 g' = team_2 g @ [get_display_name user_obj])
      \<and> (length (team_1 g) = length (team_2 g) \<longrightarrow>
           (if coin
            then team_1 g' = team_1 g @ [get_display_name user_obj] \<and> team_2 g' = team_2 g
            else team_1 g' = team_1 g \<and> team_2 g' = team_2 g @ [get_display_name user_obj]))
      \<and> (team_1 g' = team_1 g @ [get_display_name user_obj] \<and> team_2 g' = team_2 g
           \<or> team_1 g' = team_1 g \<and> team_2 g' = team_2 g @ [get_display_name user_obj])"
proof -
  obtain t1 t2 m where b: "balance (team_1 g) (team_2 g) (get_display_name user_obj) coin = (t1, t2, m)"
    by (cases "balance (team_1 g) (team_2 g) (get_display_name user_obj) coin") auto
  have "find active (update_one (\<lambda>h. gid h = gid g) (\<lambda>h. h\<lparr>team_1 := t1, team_2 := t2\<rparr>)
          (games_collection s)) = Some (g\<lparr>team_1 := t1, team_2 := t2\<rparr>)"
    using assms(2,4) by (intro find_update_one_key) (simp_all add: find_active_def)
  then have found: "find_active (games_collection (fst (join user_obj coin s)))
      = Some (g\<lparr>team_1 := t1, team_2 := t2\<rparr>)"
    by (simp add: join_team_store[OF assms(1-3) b] find_active_def)
  from b show ?thesis
    unfolding found by (auto simp: balance_def split: if_splits)
qed

theorem join_team_balance_witness:
  "find_active (games_collection (fst (join
      \<lparr>tg_id = 3, tg_username = Some ''cy'', tg_first_name = None, tg_last_name = None\<rparr> True
      \<lparr>users_collection = [\<lparr>user_id = 1, display_name = ''alice'', points = 0, streak = 0,
                             last_claim = None\<rparr>,
                            \<lparr>user_id = 2, display_name = ''bob'', points = 0, streak = 0,
                             last_claim = None\<rparr>],
       games_collection = [\<lparr>gid = ''g1'', mode = ''Team'', duration = ''1 week'',
                             penalties = False, team_1 = [''alice'', ''bob''], team_2 = [],
                             scores = [], active = True, day = 1, start_date = 0\<rparr>]\<rparr>)))
   = Some \<lparr>gid = ''g1'', mode = ''Team'', duration = ''1 week'',
           penalties = False, team_1 = [''alice'', ''bob''], team_2 = [''cy''],
           scores = [], active = True, day = 1, start_date = 0\<rparr>"
  using join_team_balance
          [of "\<lparr>tg_id = 3, tg_username = Some ''cy'', tg_first_name = None, tg_last_name = None\<rparr>"
              "\<lparr>users_collection = [\<lparr>user_id = 1, display_name = ''alice'', points = 0, streak = 0,
                                     last_claim = None\<rparr>,
                                    \<lparr>user_id = 2, display_name = ''bob'', points = 0, streak = 0,
                                     last_claim = None\<rparr>],
               games_collection = [\<lparr>gid = ''g1'', mode = ''Team'', duration = ''1 week'',
                                     penalties = False, team_1 = [''alice'', ''bob''], team_2 = [],
                                     scores = [], active = True, day = 1, start_date = 0\<rparr>]\<rparr>"
              "\<lparr>gid = ''g1'', mode = ''Team'', duration = ''1 week'',
                penalties = False, team_1 = [''alice'', ''bob''], team_2 = [],
                scores = [], active = True, day = 1, start_date = 0\<rparr>" True]
  by (simp add: find_user_def find_active_def join_def balance_def get_display_name_def Let_def)

section \<open>The setup state machine\<close>

text \<open>
  C5, as the code has it. No handler of the setup dialogue compares the text with a
  set of accepted answers. A message from anyone but the initiator is answered with the
  same prompt: state, \<open>user_data\<close> and store stay. Any text from the initiator moves
  the dialogue on: \<open>select_mode\<close> stores it as the mode and \<open>set_duration\<close> as the
  duration, neither writing to the store, and \<open>confirm_penalties\<close> takes every text but
  \<open>Yes\<close> as no penalties and inserts the game with the stored mode and duration,
  whatever they are.
\<close>

theorem setup_input_not_validated:
  "(Some (tg_id from_user) \<noteq> ud_initiator_id ud \<longrightarrow>
      select_mode from_user txt coin ud s = (SELECT_MODE, ud, s, [OnlyInitiatorMode])
      \<and> set_duration from_user txt ud s = (SET_DURATION, ud, s, [OnlyInitiatorDuration])
      \<and> confirm_penalties from_user txt game_id now ud s
          = Inr (CONFIRM_PENALTIES, ud, s, [OnlyInitiatorPenalties]))
   \<and> (Some (tg_id from_user) = ud_initiator_id ud \<longrightarrow>
      (\<exists>ud' out. select_mode from_user txt coin ud s = (SET_DURATION, ud', s, out)
                 \<and> ud_mode ud' = Some txt)
      \<and> set_duration from_user txt ud s
          = (CONFIRM_PENALTIES, ud\<lparr>ud_duration := Some txt\<rparr>, s, [AskPenalties])
      \<and> (ud_mode ud = Some m \<and> ud_duration ud = Some d
           \<and> game_id \<notin> set (map gid (games_collection s)) \<longrightarrow>
          confirm_penalties from_user txt game_id now ud s
            = Inr (END, ud\<lparr>ud_penalties := Some (txt = ''Yes'')\<rparr>,
                   s\<lparr>games_collection := games_collection s @
                        [\<lparr>gid = game_id, mode = m, duration = d, penalties = (txt = ''Yes''),
                          team_1 = (case ud_team_1 ud of None \<Rightarrow> [] | Some t \<Rightarrow> t),
                          team_2 = (case ud_team_2 ud of None \<Rightarrow> [] | Some t \<Rightarrow> t),
                          scores = [], active = True, day = 1, start_date = now\<rparr>],
                      users_collection :=
                        map (\<lambda>u. u\<lparr>points := 0, streak := 0, last_claim := None\<rparr>)
                          (users_collection s)\<rparr>,
                   [if m = ''Team''
                    then GameStartedTeam (case ud_team_1 ud of None \<Rightarrow> [] | Some t \<Rightarrow> t)
                           (case ud_team_2 ud of None \<Rightarrow> [] | Some t \<Rightarrow> t)
                    else GameStartedIndividual])))"
  by (auto simp add: select_mode_def set_duration_def confirm_penalties_def Let_def
      update_many_def)

theorem setup_input_not_validated_witness:
  "confirm_penalties \<lparr>tg_id = 1, tg_username = Some ''alice'', tg_first_name = None, tg_last_name = None\<rparr>
     ''Maybe'' ''g1'' 1000
     \<lparr>ud_initiator_id = Some 1, ud_mode = Some ''Solo'', ud_duration = Some ''forever'',
      ud_penalties = None, ud_team_1 = None, ud_team_2 = None\<rparr>
     \<lparr>users_collection = [\<lparr>user_id = 2, display_name = ''bob'', points = 6, streak = 2,
                            last_claim = Some 99\<rparr>],
      games_collection = []\<rparr>
   = Inr (END,
          \<lparr>ud_initiator_id = Some 1, ud_mode = Some ''Solo'', ud_duration = Some ''forever'',
           ud_penalties = Some False, ud_team_1 = None, ud_team_2 = None\<rparr>,
          \<lparr>users_collection = [\<lparr>user_id = 2, display_name = ''bob'', points = 0, streak = 0,
                                 last_claim = None\<rparr>],
           games_collection = [\<lparr>gid = ''g1'', mode = ''Solo'', duration = ''forever'',
                                 penalties = False, team_1 = [], team_2 = [], scores = [],
                                 active = True, day = 1, start_date = 1000\<rparr>]\<rparr>,
          [GameStartedIndividual])
   \<and> set_duration \<lparr>tg_id = 5, tg_username = Some ''eve'', tg_first_name = None, tg_last_name = None\<rparr>
       ''1 week''
       \<lparr>ud_initiator_id = Some 1, ud_mode = Some ''Team'', ud_duration = None,
        ud_penalties = None, ud_team_1 = None, ud_team_2 = None\<rparr>
       \<lparr>users_collection = [], games_collection = []\<rparr>
     = (SET_DURATION,
        \<lparr>ud_initiator_id = Some 1, ud_mode = Some ''Team'', ud_duration = None,
         ud_penalties = None, ud_team_1 = None, ud_team_2 = None\<rparr>,
        \<lparr>users_collection = [], games_collection = []\<rparr>, [OnlyInitiatorDuration])"
  using setup_input_not_validated
          [of "\<lparr>tg_id = 1, tg_username = Some ''alice'', tg_first_name = None, tg_last_name = None\<rparr>"
              "\<lparr>ud_initiator_id = Some 1, ud_mode = Some ''Solo'', ud_duration = Some ''forever'',
                ud_penalties = None, ud_team_1 = None, ud_team_2 = None\<rparr>"
              "''Maybe''" True
              "\<lparr>users_collection = [\<lparr>user_id = 2, display_name = ''bob'', points = 6, streak = 2,
                                     last_claim = Some 99\<rparr>],
               games_collection = []\<rparr>"
              "''g1''" 1000 "''Solo''" "''forever''"]
        setup_input_not_validated
          [of "\<lparr>tg_id = 5, tg_username = Some ''eve'', tg_first_name = None, tg_last_name = None\<rparr>"
              "\<lparr>ud_initiator_id = Some 1, ud_mode = Some ''Team'', ud_duration = None,
                ud_penalties = None, ud_team_1 = None, ud_team_2 = None\<rparr>"
              "''1 week''" True
              "\<lparr>users_collection = [], games_collection = []\<rparr>"]
  by simp

text \<open>
  The answers \<open>Solo\<close>, \<open>forever\<close> and \<open>Maybe\<close> move the dialogue from state to state
  and commit a game with that mode and that duration.
\<close>

theorem setup_commits_unrecognised_input:
  "select_mode \<lparr>tg_id = 1, tg_username = Some ''alice'', tg_first_name = None, tg_last_name = None\<rparr>
     ''Solo'' True
     \<lparr>ud_initiator_id = Some 1, ud_mode = None, ud_duration = None,
      ud_penalties = None, ud_team_1 = None, ud_team_2 = None\<rparr>
     \<lparr>users_collection = [], games_collection = []\<rparr>
   = (SET_DURATION,
      \<lparr>ud_initiator_id = Some 1, ud_mode = Some ''Solo'', ud_duration = None,
       ud_penalties = None, ud_team_1 = None, ud_team_2 = None\<rparr>,
      \<lparr>users_collection = [], games_collection = []\<rparr>, [AskDuration])
   \<and> set_duration \<lparr>tg_id = 1, tg_username = Some ''alice'', tg_first_name = None, tg_last_name = None\<rparr>
       ''forever''
       \<lparr>ud_initiator_id = Some 1, ud_mode = Some ''Solo'', ud_duration = None,
        ud_penalties = None, ud_team_1 = None, ud_team_2 = None\<rparr>
       \<lparr>users_collection = [], games_collection = []\<rparr>
     = (CONFIRM_PENALTIES,
        \<lparr>ud_initiator_id = Some 1, ud_mode = Some ''Solo'', ud_duration = Some ''forever'',
         ud_penalties = None, ud_team_1 = None, ud_team_2 = None\<rparr>,
        \<lparr>users_collection = [], games_collection = []\<rparr>, [AskPenalties])
   \<and> confirm_penalties \<lparr>tg_id = 1, tg_username = Some ''alice'', tg_first_name = None, tg_last_name = None\<rparr>
       ''Maybe'' ''g1'' 1000
       \<lparr>ud_initiator_id = Some 1, ud_mode = Some ''Solo'', ud_duration = Some ''forever'',
        ud_penalties = None, ud_team_1 = None, ud_team_2 = None\<rparr>
       \<lparr>users_collection = [], games_collection = []\<rparr>
     = Inr (END,
            \<lparr>ud_initiator_id = Some 1, ud_mode = Some ''Solo'', ud_duration = Some ''forever'',
             ud_penalties = Some False, ud_team_1 = None, ud_team_2 = None\<rparr>,
            \<lparr>users_collection = [],
             games_collection = [\<lparr>gid = ''g1'', mode = ''Solo'', duration = ''forever'',
                                   penalties = False, team_1 = [], team_2 = [], scores = [],
                                   active = True, day = 1, start_date = 1000\<rparr>]\<rparr>,
            [GameStartedIndividual])"
  by (simp add: select_mode_def set_duration_def confirm_penalties_def update_many_def Let_def)

text \<open>
  While a game is active, \<open>start\<close> ends the conversation at once: no initiator is
  recorded and the store is untouched.
\<close>

theorem start_refused_while_active:
  assumes "find_active (games_collection s) = Some g"
  shows "start from_user ud s = (END, ud, s, [GameAlreadyStarted])"
  using assms by (simp add: start_def)

theorem start_refused_while_active_witness:
  "start \<lparr>tg_id = 2, tg_username = Some ''bob'', tg_first_name = None, tg_last_name = None\<rparr>
     \<lparr>ud_initiator_id = None, ud_mode = None, ud_duration = None,
      ud_penalties = None, ud_team_1 = None, ud_team_2 = None\<rparr>
     \<lparr>users_collection = [],
      games_collection = [\<lparr>gid = ''g1'', mode = ''Individual'', duration = ''1 week'',
                            penalties = False, team_1 = [], team_2 = [], scores = [],
                            active = True, day = 1, start_date = 1000\<rparr>]\<rparr>
   = (END,
      \<lparr>ud_initiator_id = None, ud_mode = None, ud_duration = None,
       ud_penalties = None, ud_team_1 = None, ud_team_2 = None\<rparr>,
      \<lparr>users_collection = [],
       games_collection = [\<lparr>gid = ''g1'', mode = ''Individual'', duration = ''1 week'',
                             penalties = False, team_1 = [], team_2 = [], scores = [],
                             active = True, day = 1, start_date = 1000\<rparr>]\<rparr>,
      [GameAlreadyStarted])"
  using start_refused_while_active
          [of "\<lparr>users_collection = [],
                games_collection = [\<lparr>gid = ''g1'', mode = ''Individual'', duration = ''1 week'',
                                      penalties = False, team_1 = [], team_2 = [], scores = [],
                                      active = True, day = 1, start_date = 1000\<rparr>]\<rparr>"
              "\<lparr>gid = ''g1'', mode = ''Individual'', duration = ''1 week'',
                penalties = False, team_1 = [], team_2 = [], scores = [],
                active = True, day = 1, start_date = 1000\<rparr>"]
  by (simp add: find_active_def)

text \<open>
  C2. The check for an active game is made by \<open>start\<close> only. Two senders who both
  start a setup while no game is active both pass it, and \<open>confirm_penalties\<close>
  inserts a game for each: the store then holds two active games.
\<close>

theorem two_setups_two_active_games:
  "start \<lparr>tg_id = 1, tg_username = Some ''alice'', tg_first_name = None, tg_last_name = None\<rparr>
     \<lparr>ud_initiator_id = None, ud_mode = None, ud_duration = None,
      ud_penalties = None, ud_team_1 = None, ud_team_2 = None\<rparr>
     \<lparr>users_collection = [], games_collection = []\<rparr>
   = (SELECT_MODE,
      \<lparr>ud_initiator_id = Some 1, ud_mode = None, ud_duration = None,
       ud_penalties = None, ud_team_1 = None, ud_team_2 = None\<rparr>,
      \<lparr>users_collection = [], games_collection = []\<rparr>, [ChooseMode])
   \<and> start \<lparr>tg_id = 2, tg_username = Some ''bob'', tg_first_name = None, tg_last_name = None\<rparr>
       \<lparr>ud_initiator_id = None, ud_mode = None, ud_duration = None,
        ud_penalties = None, ud_team_1 = None, ud_team_2 = None\<rparr>
       \<lparr>users_collection = [], games_collection = []\<rparr>
     = (SELECT_MODE,
        \<lparr>ud_initiator_id = Some 2, ud_mode = None, ud_duration = None,
         ud_penalties = None, ud_team_1 = None, ud_team_2 = None\<rparr>,
        \<lparr>users_collection = [], games_collection = []\<rparr>, [ChooseMode])
   \<and> select_mode \<lparr>tg_id = 1, tg_username = Some ''alice'', tg_first_name = None, tg_last_name = None\<rparr>
       ''Individual'' True
       \<lparr>ud_initiator_id = Some 1, ud_mode = None, ud_duration = None,
        ud_penalties = None, ud_team_1 = None, ud_team_2 = None\<rparr>
       \<lparr>users_collection = [], games_collection = []\<rparr>
     = (SET_DURATION,
        \<lparr>ud_initiator_id = Some 1, ud_mode = Some ''Individual'', ud_duration = None,
         ud_penalties = None, ud_team_1 = None, ud_team_2 = None\<rparr>,
        \<lparr>users_collection = [], games_collection = []\<rparr>, [AskDuration])
   \<and> select_mode \<lparr>tg_id = 2, tg_username = Some ''bob'', tg_first_name = None, tg_last_name = None\<rparr>
       ''Individual'' True
       \<lparr>ud_initiator_id = Some 2, ud_mode = None, ud_duration = None,
        ud_penalties = None, ud_team_1 = None, ud_team_2 = None\<rparr>
       \<lparr>users_collection = [], games_collection = []\<rparr>
     = (SET_DURATION,
        \<lparr>ud_initiator_id = Some 2, ud_mode = Some ''Individual'', ud_duration = None,
         ud_penalties = None, ud_team_1 = None, ud_team_2 = None\<rparr>,
        \<lparr>users_collection = [], games_collection = []\<rparr>, [AskDuration])
   \<and> set_duration \<lparr>tg_id = 1, tg_username = Some ''alice'', tg_first_name = None, tg_last_name = None\<rparr>
       ''1 week''
       \<lparr>ud_initiator_id = Some 1, ud_mode = Some ''Individual'', ud_duration = None,
        ud_penalties = None, ud_team_1 = None, ud_team_2 = None\<rparr>
       \<lparr>users_collection = [], games_collection = []\<rparr>
     = (CONFIRM_PENALTIES,
        \<lparr>ud_initiator_id = Some 1, ud_mode = Some ''Individual'', ud_duration = Some ''1 week'',
         ud_penalties = None, ud_team_1 = None, ud_team_2 = None\<rparr>,
        \<lparr>users_collection = [], games_collection = []\<rparr>, [AskPenalties])
   \<and> set_duration \<lparr>tg_id = 2, tg_username = Some ''bob'', tg_first_name = None, tg_last_name = None\<rparr>
       ''1 week''
       \<lparr>ud_initiator_id = Some 2, ud_mode = Some ''Individual'', ud_duration = None,
        ud_penalties = None, ud_team_1 = None, ud_team_2 = None\<rparr>
       \<lparr>users_collection = [], games_collection = []\<rparr>
     = (CONFIRM_PENALTIES,
        \<lparr>ud_initiator_id = Some 2, ud_mode = Some ''Individual'', ud_duration = Some ''1 week'',
         ud_penalties = None, ud_team_1 = None, ud_team_2 = None\<rparr>,
        \<lparr>users_collection = [], games_collection = []\<rparr>, [AskPenalties])
   \<and> confirm_penalties \<lparr>tg_id = 1, tg_username = Some ''alice'', tg_first_name = None, tg_last_name = None\<rparr>
       ''No'' ''g1'' 1000
       \<lparr>ud_initiator_id = Some 1, ud_mode = Some ''Individual'', ud_duration = Some ''1 week'',
        ud_penalties = None, ud_team_1 = None, ud_team_2 = None\<rparr>
       \<lparr>users_collection = [], games_collection = []\<rparr>
     = Inr (END,
            \<lparr>ud_initiator_id = Some 1, ud_mode = Some ''Individual'', ud_duration = Some ''1 week'',
             ud_penalties = Some False, ud_team_1 = None, ud_team_2 = None\<rparr>,
            \<lparr>users_collection = [],
             games_collection = [\<lparr>gid = ''g1'', mode = ''Individual'', duration = ''1 week'',
                                   penalties = False, team_1 = [], team_2 = [], scores = [],
                                   active = True, day = 1, start_date = 1000\<rparr>]\<rparr>,
            [GameStartedIndividual])
   \<and> confirm_penalties \<lparr>tg_id = 2, tg_username = Some ''bob'', tg_first_name = None, tg_last_name = None\<rparr>
       ''No'' ''g2'' 2000
       \<lparr>ud_initiator_id = Some 2, ud_mode = Some ''Individual'', ud_duration = Some ''1 week'',
        ud_penalties = None, ud_team_1 = None, ud_team_2 = None\<rparr>
       \<lparr>users_collection = [],
        games_collection = [\<lparr>gid = ''g1'', mode = ''Individual'', duration = ''1 week'',
                              penalties = False, team_1 = [], team_2 = [], scores = [],
                              active = True, day = 1, start_date = 1000\<rparr>]\<rparr>
     = Inr (END,
            \<lparr>ud_initiator_id = Some 2, ud_mode = Some ''Individual'', ud_duration = Some ''1 week'',
             ud_penalties = Some False, ud_team_1 = None, ud_team_2 = None\<rparr>,
            \<lparr>users_collection = [],
             games_collection = [\<lparr>gid = ''g1'', mode = ''Individual'', duration = ''1 week'',
                                   penalties = False, team_1 = [], team_2 = [], scores = [],
                                   active = True, day = 1, start_date = 1000\<rparr>,
                                  \<lparr>gid = ''g2'', mode = ''Individual'', duration = ''1 week'',
                                   penalties = False, team_1 = [], team_2 = [], scores = [],
                                   active = True, day = 1, start_date = 2000\<rparr>]\<rparr>,
            [GameStartedIndividual])"
  by (simp add: start_def find_active_def select_mode_def set_duration_def confirm_penalties_def
      update_many_def Let_def)

section \<open>The scheduled check under the default client\<close>

text \<open>
  With a client that is not \<open>tz_aware\<close>, every run of the scheduled check that finds
  an active game raises \<open>TypeError\<close> at the subtraction of line 498: nothing is written
  and nothing is sent, however long ago the game started.
\<close>

theorem scheduled_check_raises_without_tz_aware:
  assumes "find_active (games_collection s) = Some g"
  shows "scheduled_check_game_end False now s = Inl (TypeError, s, [])"
  using assms by (simp add: scheduled_check_game_end_def check_game_end_naive)

theorem scheduled_check_raises_without_tz_aware_witness:
  "scheduled_check_game_end False 8640000000000
     \<lparr>users_collection = [],
      games_collection = [\<lparr>gid = ''g1'', mode = ''Individual'', duration = ''1 week'',
                            penalties = False, team_1 = [], team_2 = [], scores = [],
                            active = True, day = 1, start_date = 0\<rparr>]\<rparr>
   = Inl (TypeError,
          \<lparr>users_collection = [],
           games_collection = [\<lparr>gid = ''g1'', mode = ''Individual'', duration = ''1 week'',
                                 penalties = False, team_1 = [], team_2 = [], scores = [],
                                 active = True, day = 1, start_date = 0\<rparr>]\<rparr>, [])"
  using scheduled_check_raises_without_tz_aware
          [of "\<lparr>users_collection = [],
                games_collection = [\<lparr>gid = ''g1'', mode = ''Individual'', duration = ''1 week'',
                                      penalties = False, team_1 = [], team_2 = [], scores = [],
                                      active = True, day = 1, start_date = 0\<rparr>]\<rparr>"
              "\<lparr>gid = ''g1'', mode = ''Individual'', duration = ''1 week'',
                penalties = False, team_1 = [], team_2 = [], scores = [],
                active = True, day = 1, start_date = 0\<rparr>" 8640000000000]
  by (simp add: find_active_def)

end
